theory Spec2Isabelle
  imports Complex_Main "HOL-Library.Char_ord" "HOL-Library.List_Lexorder" "HOL-Library.Log_Nat"
begin

section \<open>JavaScript values used by the order routes\<close>

text \<open>
  The order lifecycle of the store backend: routes/orders.js (create, cancel, status update),
  the payment routes (verify, webhook, cash on delivery) and the hooks of models/Order.js,
  as functions on an explicit store of products, orders and users. Each handler returns its
  HTTP response and the store it leaves behind; a request runs alone, from start to end.

  Document ids (Mongo ObjectIds) and times in milliseconds are natural numbers. Prices and
  amounts are JavaScript Numbers, that is IEEE-754 doubles: they are carried as rationals and
  every product, sum, difference and quotient of the pricing computation is rounded to the
  nearest double. Stock levels and quantities are integers.
\<close>

type_synonym object_id = nat

text \<open>What \<^verbatim>\<open>new Date()\<close> gives: the local calendar fields read by the order
  number hook (\<^verbatim>\<open>getMonth()\<close> counts from 0) and the millisecond clock.\<close>

record date_time =
  getFullYear :: nat
  getMonth :: nat
  getDate :: nat
  getTime :: nat

definition digit_char :: "nat \<Rightarrow> char" where
  "digit_char d = ''0123456789abcdefghijklmnopqrstuvwxyz'' ! d"

text \<open>\<^verbatim>\<open>Number.prototype.toString(radix)\<close> on a non-negative integer.\<close>

function toString_radix :: "nat \<Rightarrow> nat \<Rightarrow> string" where
  "toString_radix r n =
     (if r < 2 \<or> n < r then [digit_char n]
      else toString_radix r (n div r) @ [digit_char (n mod r)])"
  by pat_completeness auto
termination
proof (relation "measure (\<lambda>(r, n). n)")
  show "wf (measure (\<lambda>(r, n). n))" by simp
next
  fix r n :: nat
  assume "\<not> (r < 2 \<or> n < r)"
  then have "1 < r" and "0 < n" by simp_all
  then have "n div r < n" by (rule div_less_dividend)
  then show "((r, n div r), (r, n)) \<in> measure (\<lambda>(r, n). n)" by simp
qed

declare toString_radix.simps [simp del]

definition toString :: "nat \<Rightarrow> string" where
  "toString n = toString_radix 10 n"

definition int_toString :: "int \<Rightarrow> string" where
  "int_toString i = (if i < 0 then ''-'' @ toString (nat (- i)) else toString (nat i))"

definition padStart :: "nat \<Rightarrow> char \<Rightarrow> string \<Rightarrow> string" where
  "padStart n c s = replicate (n - length s) c @ s"

text \<open>\<^verbatim>\<open>s.slice(-n)\<close>: the last \<open>n\<close> characters.\<close>

definition slice_last :: "nat \<Rightarrow> string \<Rightarrow> string" where
  "slice_last n s = drop (length s - n) s"

definition substr :: "nat \<Rightarrow> nat \<Rightarrow> string \<Rightarrow> string" where
  "substr start len s = take len (drop start s)"

definition toUpperCase_char :: "char \<Rightarrow> char" where
  "toUpperCase_char c =
     (case map_of (zip ''abcdefghijklmnopqrstuvwxyz'' ''ABCDEFGHIJKLMNOPQRSTUVWXYZ'') c of
        Some u \<Rightarrow> u
      | None \<Rightarrow> c)"

definition toUpperCase :: "string \<Rightarrow> string" where
  "toUpperCase s = map toUpperCase_char s"

definition is_digit :: "char \<Rightarrow> bool" where
  "is_digit c = (c \<in> set ''0123456789'')"

definition digit_val :: "char \<Rightarrow> nat" where
  "digit_val c = length (takeWhile (\<lambda>d. d \<noteq> c) ''0123456789'')"

definition digits_val :: "string \<Rightarrow> nat" where
  "digits_val ds = foldl (\<lambda>a c. 10 * a + digit_val c) 0 ds"

text \<open>\<^verbatim>\<open>parseInt\<close> on the strings the hook passes to it: the leading decimal digits
  are read and \<open>None\<close> stands for \<^verbatim>\<open>NaN\<close> (no leading digit). Signs and white
  space are not modelled.\<close>

definition parseInt :: "string \<Rightarrow> nat option" where
  "parseInt s =
     (let ds = takeWhile is_digit s in if ds = [] then None else Some (digits_val ds))"

text \<open>First element satisfying a predicate replaced (a document updated in place).\<close>

fun update_first :: "('a \<Rightarrow> bool) \<Rightarrow> ('a \<Rightarrow> 'a) \<Rightarrow> 'a list \<Rightarrow> 'a list" where
  "update_first P f [] = []"
| "update_first P f (x # xs) = (if P x then f x # xs else x # update_first P f xs)"

subsection \<open>Numbers\<close>

text \<open>
  A finite Number is a double: zero, or plus or minus \<open>n * 2 ^ q\<close> with a significand
  \<open>n < 2 ^ 53\<close> and \<open>- 1074 \<le> q\<close>. \<open>double x\<close> is the rational \<open>x\<close> rounded to
  the nearest double, a tie going to the even significand (the rounding of every arithmetic
  operator and of a decimal literal). For \<open>2 ^ e \<le> \<bar>x\<bar> < 2 ^ (e + 1)\<close> the doubles around
  \<open>x\<close> are the multiples of \<open>2 ^ (e - 52)\<close>, in the subnormal range those of
  \<open>2 ^ - 1074\<close>.

  \<^verbatim>\<open>Infinity\<close> and \<^verbatim>\<open>NaN\<close> are not modelled: JavaScript gives
  \<^verbatim>\<open>Infinity\<close> where the exact value \<open>x\<close> \<open>overflows\<close>, and \<open>double x\<close> is the
  IEEE-754 result for every other \<open>x\<close>.
\<close>

definition pow2 :: "int \<Rightarrow> rat" where
  "pow2 q = (if 0 \<le> q then 2 ^ nat q else 1 / 2 ^ nat (- q))"

text \<open>The exponent \<open>e\<close> with \<open>2 ^ e \<le> a < 2 ^ (e + 1)\<close>, for \<open>0 < a\<close>: read off the bit
  length of the integer part of \<open>a\<close> or of \<open>1 / a\<close>, which is one too small when \<open>a < 1\<close>
  is a power of two.\<close>

definition log2_estimate :: "rat \<Rightarrow> int" where
  "log2_estimate a = (if 1 \<le> a then bitlen \<lfloor>a\<rfloor> - 1 else - bitlen \<lfloor>1 / a\<rfloor>)"

definition log2_floor :: "rat \<Rightarrow> int" where
  "log2_floor a =
     (if pow2 (log2_estimate a + 1) \<le> a then log2_estimate a + 1 else log2_estimate a)"

text \<open>The nearest integer, a half going to the even one.\<close>

definition round_even :: "rat \<Rightarrow> int" where
  "round_even m =
     (if m - of_int \<lfloor>m\<rfloor> < 1 / 2 then \<lfloor>m\<rfloor>
      else if 1 / 2 < m - of_int \<lfloor>m\<rfloor> then \<lfloor>m\<rfloor> + 1
      else if even \<lfloor>m\<rfloor> then \<lfloor>m\<rfloor> else \<lfloor>m\<rfloor> + 1)"

text \<open>The exponent of the spacing of the doubles around \<open>a\<close>.\<close>

definition quantum :: "rat \<Rightarrow> int" where
  "quantum a = max (log2_floor a - 52) (- 1074)"

definition double :: "rat \<Rightarrow> rat" where
  "double x =
     (if x = 0 then 0
      else sgn x * of_int (round_even (\<bar>x\<bar> / pow2 (quantum \<bar>x\<bar>))) * pow2 (quantum \<bar>x\<bar>))"


text \<open>The arithmetic operators on Numbers. An operand that is not itself a double stands for
  the Number nearest to it (what its decimal text parses to, as \<^verbatim>\<open>0.18\<close>), so
  each operator reads its operands through \<open>double\<close>, which leaves a double as it is.\<close>

definition js_mul :: "rat \<Rightarrow> rat \<Rightarrow> rat" where
  "js_mul a b = double (double a * double b)"

definition js_div :: "rat \<Rightarrow> rat \<Rightarrow> rat" where
  "js_div a b = double (double a / double b)"

definition js_add :: "rat \<Rightarrow> rat \<Rightarrow> rat" where
  "js_add a b = double (double a + double b)"

definition js_sub :: "rat \<Rightarrow> rat \<Rightarrow> rat" where
  "js_sub a b = double (double a - double b)"

text \<open>\<^verbatim>\<open>Math.round\<close>: the nearest integer, a half rounded towards plus infinity.
  The result is exact: the nearest integer of a double is a double.\<close>

definition Math_round :: "rat \<Rightarrow> rat" where
  "Math_round x = of_int \<lfloor>x + 1 / 2\<rfloor>"

section \<open>Data model (models/Product.js, models/Order.js, user cart)\<close>

record product =
  p_id :: object_id
  p_name :: string
  p_price :: rat
  p_stock :: int
  p_images :: "string list"
  p_isActive :: bool
  p_sku :: string

record address =
  a_firstName :: string
  a_lastName :: string
  a_addressLine1 :: string
  a_addressLine2 :: string
  a_city :: string
  a_state :: string
  a_pincode :: string
  a_country :: string
  a_phone :: string
  a_sameAsShipping :: "bool option"

datatype payment_method = razorpay | stripe | cod | upi

datatype payment_status = pay_pending | pay_completed | pay_failed | pay_refunded

record payment_info =
  pi_method :: payment_method
  pi_transactionId :: "string option"
  pi_paymentId :: "string option"
  pi_orderId :: "string option"
  pi_signature :: "string option"
  pi_status :: payment_status
  pi_paidAt :: "nat option"
  pi_failureReason :: "string option"

record pricing =
  pr_subtotal :: rat
  pr_tax :: rat
  pr_shippingCost :: rat
  pr_discount :: rat
  pr_total :: rat

text \<open>A coupon as the request body carries it: free-form strings, an absent
  \<^verbatim>\<open>code\<close> is the empty string.\<close>

record coupon =
  c_code :: string
  c_discount :: rat
  c_type :: string

datatype order_status =
  pending | confirmed | processing | shipped | delivered | cancelled | returned

fun status_name :: "order_status \<Rightarrow> string" where
  "status_name pending = ''pending''"
| "status_name confirmed = ''confirmed''"
| "status_name processing = ''processing''"
| "status_name shipped = ''shipped''"
| "status_name delivered = ''delivered''"
| "status_name cancelled = ''cancelled''"
| "status_name returned = ''returned''"

record order_item =
  oi_product :: object_id
  oi_name :: string
  oi_price :: rat
  oi_quantity :: int
  oi_size :: string
  oi_image :: string
  oi_sku :: string

record tracking =
  tr_trackingNumber :: "string option"
  tr_courier :: "string option"
  tr_estimatedDelivery :: "nat option"

datatype refund_status = refund_pending | refund_processed | refund_failed

record cancellation =
  cn_reason :: string
  cn_cancelledAt :: nat
  cn_refundStatus :: refund_status
  cn_refundAmount :: rat

record timeline_entry =
  tl_status :: order_status
  tl_message :: string
  tl_timestamp :: nat

record order =
  o_id :: object_id
  o_orderNumber :: string
  o_user :: object_id
  o_items :: "order_item list"
  o_shippingAddress :: address
  o_billingAddress :: address
  o_paymentInfo :: payment_info
  o_pricing :: pricing
  o_coupon :: "coupon option"
  o_status :: order_status
  o_tracking :: tracking
  o_cancellation :: "cancellation option"
  o_timeline :: "timeline_entry list"

record cart_item =
  ci_product :: object_id
  ci_quantity :: int
  ci_size :: string

record user =
  u_id :: object_id
  u_cart :: "cart_item list"

text \<open>The three collections the order and payment routes read and write.\<close>

record db =
  db_products :: "product list"
  db_orders :: "order list"
  db_users :: "user list"

text \<open>An HTTP response: the status code with the \<^verbatim>\<open>data\<close> of a success or the
  \<^verbatim>\<open>message\<close> of a failure.\<close>

datatype 'a response = Success nat 'a | Failure nat string

fun is_success :: "'a response \<Rightarrow> bool" where
  "is_success (Success _ _) = True"
| "is_success (Failure _ _) = False"

section \<open>Store operations (the Mongoose calls the routes make)\<close>

text \<open>\<^verbatim>\<open>Product.find({ _id: { $in: productIds }, isActive: true })\<close>.\<close>

definition Product_find_active :: "object_id list \<Rightarrow> product list \<Rightarrow> product list" where
  "Product_find_active ids ps = filter (\<lambda>p. p_id p \<in> set ids \<and> p_isActive p) ps"

text \<open>\<^verbatim>\<open>product.save()\<close> after the stock of the loaded document was changed: the
  stored document with that id receives the new stock.\<close>

definition Product_save :: "product \<Rightarrow> product list \<Rightarrow> product list" where
  "Product_save doc ps =
     update_first (\<lambda>p. p_id p = p_id doc) (\<lambda>p. p\<lparr>p_stock := p_stock doc\<rparr>) ps"

text \<open>\<^verbatim>\<open>Product.findByIdAndUpdate(id, { $inc: { stock: n } })\<close>; nothing happens
  when no product has the id.\<close>

definition Product_inc_stock :: "object_id \<Rightarrow> int \<Rightarrow> product list \<Rightarrow> product list" where
  "Product_inc_stock pid n ps =
     update_first (\<lambda>p. p_id p = pid) (\<lambda>p. p\<lparr>p_stock := p_stock p + n\<rparr>) ps"

definition Order_findById :: "object_id \<Rightarrow> order list \<Rightarrow> order option" where
  "Order_findById i os = find (\<lambda>x. o_id x = i) os"

definition User_findById :: "object_id \<Rightarrow> user list \<Rightarrow> user option" where
  "User_findById i us = find (\<lambda>u. u_id u = i) us"

section \<open>Order model hooks (models/Order.js)\<close>

text \<open>The day prefix \<^verbatim>\<open>SS${year}${month}${day}\<close> of the pre-save hook.\<close>

definition day_prefix :: "date_time \<Rightarrow> string" where
  "day_prefix date =
     (let year = slice_last 2 (toString (getFullYear date));
          month = padStart 2 CHR ''0'' (toString (getMonth date + 1));
          day = padStart 2 CHR ''0'' (toString (getDate date))
      in ''SS'' @ year @ month @ day)"

text \<open>\<^verbatim>\<open>findOne({ orderNumber: /^prefix/ }).sort({ orderNumber: -1 })\<close>: among the
  orders whose number starts with the prefix, the one with the greatest number in string
  order.\<close>

definition last_order_of_day :: "string \<Rightarrow> order list \<Rightarrow> order option" where
  "last_order_of_day pre os =
     (case filter (\<lambda>x. take (length pre) (o_orderNumber x) = pre) os of
        [] \<Rightarrow> None
      | m # ms \<Rightarrow>
          Some (fold (\<lambda>x best. if o_orderNumber best < o_orderNumber x then x else best) ms m))"

text \<open>The sequence the hook computes, already as text: \<^verbatim>\<open>NaN + 1\<close> prints as
  \<^verbatim>\<open>NaN\<close>.\<close>

definition next_sequence :: "order option \<Rightarrow> string" where
  "next_sequence lastOrder =
     (case lastOrder of
        None \<Rightarrow> toString 1
      | Some l \<Rightarrow>
          (case parseInt (slice_last 4 (o_orderNumber l)) of
             None \<Rightarrow> ''NaN''
           | Some lastSequence \<Rightarrow> toString (lastSequence + 1)))"

definition hook_order_number :: "date_time \<Rightarrow> order list \<Rightarrow> string" where
  "hook_order_number date os =
     day_prefix date @ padStart 4 CHR ''0'' (next_sequence (last_order_of_day (day_prefix date) os))"

definition timeline_entry_for :: "date_time \<Rightarrow> order_status \<Rightarrow> timeline_entry" where
  "timeline_entry_for date st =
     \<lparr>tl_status = st, tl_message = ''Order '' @ status_name st, tl_timestamp = getTime date\<rparr>"

text \<open>\<^verbatim>\<open>orderSchema.pre('save')\<close>. \<open>status_modified\<close> is what
  \<^verbatim>\<open>this.isModified('status')\<close> answers.\<close>

definition order_pre_save :: "date_time \<Rightarrow> bool \<Rightarrow> order list \<Rightarrow> order \<Rightarrow> order" where
  "order_pre_save date status_modified os doc =
     (let doc1 = (if o_orderNumber doc = [] then doc\<lparr>o_orderNumber := hook_order_number date os\<rparr>
                  else doc);
          doc2 = (if status_modified
                  then doc1\<lparr>o_timeline := o_timeline doc1 @ [timeline_entry_for date (o_status doc1)]\<rparr>
                  else doc1)
      in doc2)"

text \<open>Mongoose's change tracking for the \<^verbatim>\<open>status\<close> path: a new document that
  was given a status counts as modified; a loaded document counts as modified when the
  value assigned differs from the loaded one.\<close>

definition isModified_status :: "order option \<Rightarrow> order \<Rightarrow> bool" where
  "isModified_status loaded doc =
     (case loaded of None \<Rightarrow> True | Some l \<Rightarrow> o_status l \<noteq> o_status doc)"

text \<open>\<^verbatim>\<open>order.save()\<close> of a loaded document: the hook runs, then the stored
  document with that id is replaced.\<close>

definition Order_save :: "date_time \<Rightarrow> order \<Rightarrow> order \<Rightarrow> order list \<Rightarrow> order \<times> order list" where
  "Order_save date loaded doc os =
     (let saved = order_pre_save date (isModified_status (Some loaded) doc) os doc
      in (saved, update_first (\<lambda>x. o_id x = o_id saved) (\<lambda>_. saved) os))"

text \<open>\<^verbatim>\<open>order.save()\<close> of a new document. The collection has unique indexes on
  \<^verbatim>\<open>_id\<close> and on \<^verbatim>\<open>orderNumber\<close> (\<^verbatim>\<open>unique: true\<close>): a
  duplicate makes the save throw (\<open>None\<close>). The other schema validators (required
  fields, enumerations) are not modelled.\<close>

definition Order_insert :: "date_time \<Rightarrow> order \<Rightarrow> order list \<Rightarrow> (order \<times> order list) option" where
  "Order_insert date doc os =
     (let saved = order_pre_save date (isModified_status None doc) os doc
      in if o_id saved \<in> set (map o_id os) \<or> o_orderNumber saved \<in> set (map o_orderNumber os)
         then None
         else Some (saved, os @ [saved]))"

section \<open>Creating an order (routes/orders.js, POST /)\<close>

text \<open>\<^verbatim>\<open>generateOrderNumber\<close>; \<open>random\<close> is the text of
  \<^verbatim>\<open>Math.random().toString(36)\<close>.\<close>

definition generateOrderNumber :: "date_time \<Rightarrow> string \<Rightarrow> string" where
  "generateOrderNumber date random =
     (let timestamp = toString_radix 36 (getTime date);
          random5 = substr 2 5 random
      in toUpperCase (''ORD-'' @ timestamp @ ''-'' @ random5))"

record req_item =
  ri_product :: object_id
  ri_quantity :: int
  ri_size :: string

record create_request =
  rq_items :: "req_item list"
  rq_shippingAddress :: address
  rq_billingAddress :: "address option"
  rq_paymentInfo :: payment_info
  rq_coupon :: "coupon option"

definition all_digits :: "nat \<Rightarrow> string \<Rightarrow> bool" where
  "all_digits n s = (length s = n \<and> list_all is_digit s)"

text \<open>The express-validator chain of the route.\<close>

definition create_request_valid :: "create_request \<Rightarrow> bool" where
  "create_request_valid rq =
     (rq_items rq \<noteq> [] \<and>
      list_all (\<lambda>i. 1 \<le> ri_quantity i) (rq_items rq) \<and>
      a_firstName (rq_shippingAddress rq) \<noteq> [] \<and>
      a_lastName (rq_shippingAddress rq) \<noteq> [] \<and>
      a_addressLine1 (rq_shippingAddress rq) \<noteq> [] \<and>
      a_city (rq_shippingAddress rq) \<noteq> [] \<and>
      a_state (rq_shippingAddress rq) \<noteq> [] \<and>
      all_digits 6 (a_pincode (rq_shippingAddress rq)) \<and>
      all_digits 10 (a_phone (rq_shippingAddress rq)))"

definition insufficient_stock_message :: "product \<Rightarrow> string" where
  "insufficient_stock_message product =
     ''Insufficient stock for '' @ p_name product @ ''. Only '' @ int_toString (p_stock product)
       @ '' items available.''"

definition order_item_of :: "product \<Rightarrow> req_item \<Rightarrow> order_item" where
  "order_item_of product item =
     \<lparr>oi_product = p_id product, oi_name = p_name product, oi_price = p_price product,
      oi_quantity = ri_quantity item, oi_size = ri_size item,
      oi_image = (case p_images product of [] \<Rightarrow> [] | url # _ \<Rightarrow> url),
      oi_sku = p_sku product\<rparr>"

text \<open>The \<^verbatim>\<open>for (const item of items)\<close> loop. \<open>products\<close> are the loaded
  documents, \<open>stored\<close> the collection. \<open>Inl\<close> is the early \<^verbatim>\<open>return\<close> of a
  400 response, with the collection as the iterations before it left it.\<close>

fun stock_loop ::
  "req_item list \<Rightarrow> product list \<Rightarrow> product list \<Rightarrow> order_item list \<Rightarrow> rat \<Rightarrow>
   (string \<times> product list) + (order_item list \<times> rat \<times> product list)" where
  "stock_loop [] products stored orderItems subtotal = Inr (orderItems, subtotal, stored)"
| "stock_loop (item # items) products stored orderItems subtotal =
     (case find (\<lambda>p. p_id p = ri_product item) products of
        None \<Rightarrow> Inl (''Product not found'', stored)
      | Some product \<Rightarrow>
          if p_stock product < ri_quantity item
          then Inl (insufficient_stock_message product, stored)
          else
            let itemTotal = js_mul (p_price product) (of_int (ri_quantity item));
                product' = product\<lparr>p_stock := p_stock product - ri_quantity item\<rparr>
            in stock_loop items
                 (update_first (\<lambda>p. p_id p = ri_product item) (\<lambda>_. product') products)
                 (Product_save product' stored)
                 (orderItems @ [order_item_of product item])
                 (js_add subtotal itemTotal))"

definition coupon_discount :: "rat \<Rightarrow> coupon option \<Rightarrow> rat" where
  "coupon_discount subtotal cpn =
     (case cpn of
        None \<Rightarrow> 0
      | Some c \<Rightarrow>
          if c_code c \<noteq> [] then
            (if c_type c = ''percentage''
             then Math_round (js_mul subtotal (js_div (c_discount c) 100))
             else if c_type c = ''fixed'' then c_discount c
             else 0)
          else 0)"

definition calculate_pricing :: "rat \<Rightarrow> coupon option \<Rightarrow> pricing" where
  "calculate_pricing subtotal cpn =
     (let tax = Math_round (js_mul subtotal (18 / 100));
          shippingCost = (if subtotal > 1000 then 0 else 100);
          discount = coupon_discount subtotal cpn;
          total = js_sub (js_add (js_add subtotal tax) shippingCost) discount
      in \<lparr>pr_subtotal = subtotal, pr_tax = tax, pr_shippingCost = shippingCost,
          pr_discount = discount, pr_total = total\<rparr>)"

definition final_billing_address :: "address \<Rightarrow> address option \<Rightarrow> address" where
  "final_billing_address shippingAddress billingAddress =
     (case billingAddress of
        Some b \<Rightarrow> b
      | None \<Rightarrow>
          shippingAddress
            \<lparr>a_country := (if a_country shippingAddress = [] then ''India''
                            else a_country shippingAddress),
             a_sameAsShipping := Some True\<rparr>)"

definition new_order ::
  "object_id \<Rightarrow> string \<Rightarrow> object_id \<Rightarrow> create_request \<Rightarrow> order_item list \<Rightarrow> rat \<Rightarrow> order" where
  "new_order new_id orderNumber uid rq orderItems subtotal =
     \<lparr>o_id = new_id, o_orderNumber = orderNumber, o_user = uid, o_items = orderItems,
      o_shippingAddress = rq_shippingAddress rq,
      o_billingAddress = final_billing_address (rq_shippingAddress rq) (rq_billingAddress rq),
      o_paymentInfo = rq_paymentInfo rq,
      o_pricing = calculate_pricing subtotal (rq_coupon rq),
      o_coupon = rq_coupon rq,
      o_status = (if pi_method (rq_paymentInfo rq) = cod then confirmed else pending),
      o_tracking = \<lparr>tr_trackingNumber = None, tr_courier = None, tr_estimatedDelivery = None\<rparr>,
      o_cancellation = None,
      o_timeline = []\<rparr>"

text \<open>The handler. \<open>date\<close> is the clock, \<open>random\<close> the random text and \<open>new_id\<close> the
  id Mongoose gives the new document; \<open>req_user\<close> is \<^verbatim>\<open>req.user._id\<close>. Anything
  thrown inside the \<^verbatim>\<open>try\<close> block becomes the 500 response of the
  \<^verbatim>\<open>catch\<close>, with the writes made before it kept.\<close>

definition createOrder ::
  "date_time \<Rightarrow> string \<Rightarrow> object_id \<Rightarrow> object_id option \<Rightarrow> create_request \<Rightarrow> db \<Rightarrow>
   order response \<times> db" where
  "createOrder date random new_id req_user rq d =
     (if \<not> create_request_valid rq then (Failure 400 ''Validation failed'', d)
      else case req_user of
        None \<Rightarrow> (Failure 401 ''User not authenticated'', d)
      | Some uid \<Rightarrow>
          let productIds = map ri_product (rq_items rq);
              products = Product_find_active productIds (db_products d)
          in if length products \<noteq> length productIds
             then (Failure 400 ''Some products are not available'', d)
             else case stock_loop (rq_items rq) products (db_products d) [] 0 of
               Inl (message, stored) \<Rightarrow> (Failure 400 message, d\<lparr>db_products := stored\<rparr>)
             | Inr (orderItems, subtotal, stored) \<Rightarrow>
                 let d1 = d\<lparr>db_products := stored\<rparr>;
                     orderNumber = generateOrderNumber date random;
                     doc = new_order new_id orderNumber uid rq orderItems subtotal
                 in case Order_insert date doc (db_orders d1) of
                      None \<Rightarrow> (Failure 500 ''Error creating order'', d1)
                    | Some (savedOrder, os) \<Rightarrow>
                        let d2 = d1\<lparr>db_orders := os\<rparr>
                        in case User_findById uid (db_users d2) of
                             None \<Rightarrow> (Failure 500 ''Error creating order'', d2)
                           | Some u \<Rightarrow>
                               (Success 201 savedOrder,
                                d2\<lparr>db_users :=
                                     update_first (\<lambda>x. u_id x = uid) (\<lambda>x. x\<lparr>u_cart := []\<rparr>)
                                       (db_users d2)\<rparr>))"

section \<open>Cancelling and updating an order (routes/orders.js)\<close>

text \<open>The \<^verbatim>\<open>for (const item of order.items)\<close> loop that gives the stock back.\<close>

fun restore_stock :: "order_item list \<Rightarrow> product list \<Rightarrow> product list" where
  "restore_stock [] ps = ps"
| "restore_stock (item # items) ps =
     restore_stock items (Product_inc_stock (oi_product item) (oi_quantity item) ps)"

definition cancellable :: "order_status \<Rightarrow> bool" where
  "cancellable st = (st \<in> set [pending, confirmed, processing])"

text \<open>PUT /:id/cancel. \<open>reason\<close> is \<^verbatim>\<open>req.body.reason\<close>, \<open>None\<close> when the
  body has none.\<close>

definition cancelOrder ::
  "date_time \<Rightarrow> object_id \<Rightarrow> object_id \<Rightarrow> string option \<Rightarrow> db \<Rightarrow> order response \<times> db" where
  "cancelOrder date req_user oid reason d =
     (if reason = Some [] then (Failure 400 ''Validation failed'', d)
      else case Order_findById oid (db_orders d) of
        None \<Rightarrow> (Failure 404 ''Order not found'', d)
      | Some ord \<Rightarrow>
          if o_user ord \<noteq> req_user then (Failure 403 ''Not authorized to cancel this order'', d)
          else if \<not> cancellable (o_status ord)
          then (Failure 400 ''Order cannot be cancelled at this stage'', d)
          else
            let completed = (pi_status (o_paymentInfo ord) = pay_completed);
                doc = ord
                  \<lparr>o_status := cancelled,
                   o_cancellation := Some
                     \<lparr>cn_reason = (case reason of None \<Rightarrow> ''Cancelled by customer''
                                  | Some r \<Rightarrow> if r = [] then ''Cancelled by customer'' else r),
                      cn_cancelledAt = getTime date,
                      cn_refundStatus = (if completed then refund_pending else refund_processed),
                      cn_refundAmount = (if completed then pr_total (o_pricing ord) else 0)\<rparr>\<rparr>;
                (saved, os) = Order_save date ord doc (db_orders d)
            in (Success 200 saved,
                d\<lparr>db_orders := os, db_products := restore_stock (o_items saved) (db_products d)\<rparr>))"

record status_update =
  su_status :: order_status
  su_trackingNumber :: "string option"
  su_courier :: "string option"
  su_estimatedDelivery :: "nat option"

text \<open>PUT /:id/status (admin).\<close>

definition updateOrderStatus ::
  "date_time \<Rightarrow> object_id \<Rightarrow> status_update \<Rightarrow> db \<Rightarrow> order response \<times> db" where
  "updateOrderStatus date oid upd d =
     (if su_trackingNumber upd = Some [] \<or> su_courier upd = Some []
      then (Failure 400 ''Validation failed'', d)
      else case Order_findById oid (db_orders d) of
        None \<Rightarrow> (Failure 404 ''Order not found'', d)
      | Some ord \<Rightarrow>
          let t0 = o_tracking ord;
              t1 = (case su_trackingNumber upd of None \<Rightarrow> t0
                    | Some n \<Rightarrow> t0\<lparr>tr_trackingNumber := Some n\<rparr>);
              t2 = (case su_courier upd of None \<Rightarrow> t1 | Some c \<Rightarrow> t1\<lparr>tr_courier := Some c\<rparr>);
              t3 = (case su_estimatedDelivery upd of None \<Rightarrow> t2
                    | Some e \<Rightarrow> t2\<lparr>tr_estimatedDelivery := Some e\<rparr>);
              doc = ord\<lparr>o_status := su_status upd, o_tracking := t3\<rparr>;
              (saved, os) = Order_save date ord doc (db_orders d)
          in (Success 200 saved, d\<lparr>db_orders := os\<rparr>))"

section \<open>Payment routes (POST /razorpay/verify, /razorpay/webhook, /cod/process)\<close>

text \<open>The environment of the payment routes. \<open>hmac_sha256_hex key data\<close> stands for
  \<^verbatim>\<open>crypto.createHmac('sha256', key).update(data).digest('hex')\<close> and
  \<open>JSON_stringify\<close> for the text the webhook signs; both belong to the platform and are
  parameters here. The webhook secret may be unset.\<close>

record webhook_entity =
  pe_id :: string
  pe_order_id :: string
  pe_error_description :: "string option"

text \<open>\<open>wb_entity\<close> is \<^verbatim>\<open>req.body.payload.payment.entity\<close>; \<open>None\<close> when that
  path cannot be read, which throws.\<close>

record webhook_body =
  wb_event :: string
  wb_entity :: "webhook_entity option"

record config =
  hmac_sha256_hex :: "string \<Rightarrow> string \<Rightarrow> string"
  JSON_stringify :: "webhook_body \<Rightarrow> string"
  RAZORPAY_KEY_SECRET :: string
  RAZORPAY_WEBHOOK_SECRET :: "string option"

record verify_request =
  vr_razorpay_order_id :: string
  vr_razorpay_payment_id :: string
  vr_razorpay_signature :: string
  vr_orderId :: object_id

definition verify_request_valid :: "verify_request \<Rightarrow> bool" where
  "verify_request_valid rq =
     (vr_razorpay_order_id rq \<noteq> [] \<and> vr_razorpay_payment_id rq \<noteq> [] \<and>
      vr_razorpay_signature rq \<noteq> [])"

definition generated_signature :: "config \<Rightarrow> verify_request \<Rightarrow> string" where
  "generated_signature cfg rq =
     hmac_sha256_hex cfg (RAZORPAY_KEY_SECRET cfg)
       (vr_razorpay_order_id rq @ ''|'' @ vr_razorpay_payment_id rq)"

text \<open>The data of a successful verification: order id, order number, payment status.\<close>

definition verifyPayment ::
  "config \<Rightarrow> date_time \<Rightarrow> object_id \<Rightarrow> verify_request \<Rightarrow> db \<Rightarrow>
   (object_id \<times> string \<times> payment_status) response \<times> db" where
  "verifyPayment cfg date req_user rq d =
     (if \<not> verify_request_valid rq then (Failure 400 ''Validation failed'', d)
      else if generated_signature cfg rq \<noteq> vr_razorpay_signature rq
      then (Failure 400 ''Payment verification failed'', d)
      else case Order_findById (vr_orderId rq) (db_orders d) of
        None \<Rightarrow> (Failure 404 ''Order not found'', d)
      | Some ord \<Rightarrow>
          if o_user ord \<noteq> req_user then (Failure 403 ''Not authorized'', d)
          else
            let doc = ord
                  \<lparr>o_paymentInfo := (o_paymentInfo ord)
                     \<lparr>pi_paymentId := Some (vr_razorpay_payment_id rq),
                      pi_orderId := Some (vr_razorpay_order_id rq),
                      pi_signature := Some (vr_razorpay_signature rq),
                      pi_status := pay_completed,
                      pi_paidAt := Some (getTime date)\<rparr>,
                   o_status := confirmed\<rparr>;
                (saved, os) = Order_save date ord doc (db_orders d)
            in (Success 200 (o_id saved, o_orderNumber saved, pi_status (o_paymentInfo saved)),
                d\<lparr>db_orders := os\<rparr>))"

text \<open>\<^verbatim>\<open>if (webhookSecret)\<close>: an unset or empty secret is falsy.\<close>

definition webhook_secret_set :: "config \<Rightarrow> bool" where
  "webhook_secret_set cfg =
     (case RAZORPAY_WEBHOOK_SECRET cfg of None \<Rightarrow> False | Some k \<Rightarrow> k \<noteq> [])"

text \<open>The guarded signature check: \<open>False\<close> is the early 400 response.\<close>

definition webhook_signature_ok :: "config \<Rightarrow> string option \<Rightarrow> webhook_body \<Rightarrow> bool" where
  "webhook_signature_ok cfg webhookSignature body =
     (if webhook_secret_set cfg
      then (case RAZORPAY_WEBHOOK_SECRET cfg of
              None \<Rightarrow> True
            | Some webhookSecret \<Rightarrow>
                Some (hmac_sha256_hex cfg webhookSecret (JSON_stringify cfg body)) = webhookSignature)
      else True)"

text \<open>\<^verbatim>\<open>Order.findOne({ 'paymentInfo.orderId': id })\<close>.\<close>

definition Order_findByPaymentOrderId :: "string \<Rightarrow> order list \<Rightarrow> order option" where
  "Order_findByPaymentOrderId rid os = find (\<lambda>x. pi_orderId (o_paymentInfo x) = Some rid) os"

text \<open>POST /razorpay/webhook. \<open>webhookSignature\<close> is the
  \<^verbatim>\<open>x-razorpay-signature\<close> header, \<open>None\<close> when the request has none.\<close>

definition handlePaymentWebhook ::
  "config \<Rightarrow> date_time \<Rightarrow> string option \<Rightarrow> webhook_body \<Rightarrow> db \<Rightarrow> unit response \<times> db" where
  "handlePaymentWebhook cfg date webhookSignature body d =
     (if \<not> webhook_signature_ok cfg webhookSignature body
      then (Failure 400 ''Webhook signature verification failed'', d)
      else case wb_entity body of
        None \<Rightarrow> (Failure 500 ''Error processing webhook'', d)
      | Some paymentEntity \<Rightarrow>
          if wb_event body = ''payment.captured'' then (Success 200 (), d)
          else if wb_event body = ''payment.failed'' then
            (case Order_findByPaymentOrderId (pe_order_id paymentEntity) (db_orders d) of
               None \<Rightarrow> (Success 200 (), d)
             | Some failedOrder \<Rightarrow>
                 let doc = failedOrder
                       \<lparr>o_paymentInfo := (o_paymentInfo failedOrder)
                          \<lparr>pi_status := pay_failed,
                           pi_failureReason := pe_error_description paymentEntity\<rparr>\<rparr>;
                     (saved, os) = Order_save date failedOrder doc (db_orders d)
                 in (Success 200 (), d\<lparr>db_orders := os\<rparr>))
          else (Success 200 (), d))"

text \<open>POST /cod/process.\<close>

definition processCod ::
  "date_time \<Rightarrow> object_id \<Rightarrow> object_id \<Rightarrow> db \<Rightarrow>
   (object_id \<times> string \<times> order_status) response \<times> db" where
  "processCod date req_user oid d =
     (case Order_findById oid (db_orders d) of
        None \<Rightarrow> (Failure 404 ''Order not found'', d)
      | Some ord \<Rightarrow>
          if o_user ord \<noteq> req_user then (Failure 403 ''Not authorized'', d)
          else if pi_method (o_paymentInfo ord) \<noteq> cod
          then (Failure 400 ''Invalid payment method for this order'', d)
          else
            let doc = ord
                  \<lparr>o_status := confirmed,
                   o_paymentInfo := (o_paymentInfo ord)\<lparr>pi_status := pay_pending\<rparr>\<rparr>;
                (saved, os) = Order_save date ord doc (db_orders d)
            in (Success 200 (o_id saved, o_orderNumber saved, o_status saved),
                d\<lparr>db_orders := os\<rparr>))"

section \<open>The routes as transitions of the store\<close>

datatype request =
    CreateOrder string object_id "object_id option" create_request
  | CancelOrder object_id object_id "string option"
  | UpdateOrderStatus object_id status_update
  | VerifyPayment object_id verify_request
  | PaymentWebhook "string option" webhook_body
  | ProcessCod object_id object_id

fun handle :: "config \<Rightarrow> date_time \<Rightarrow> request \<Rightarrow> db \<Rightarrow> db" where
  "handle cfg date (CreateOrder random new_id req_user rq) d =
     snd (createOrder date random new_id req_user rq d)"
| "handle cfg date (CancelOrder req_user oid reason) d = snd (cancelOrder date req_user oid reason d)"
| "handle cfg date (UpdateOrderStatus oid upd) d = snd (updateOrderStatus date oid upd d)"
| "handle cfg date (VerifyPayment req_user rq) d = snd (verifyPayment cfg date req_user rq d)"
| "handle cfg date (PaymentWebhook webhookSignature body) d =
     snd (handlePaymentWebhook cfg date webhookSignature body d)"
| "handle cfg date (ProcessCod req_user oid) d = snd (processCod date req_user oid d)"

section \<open>The pricing rule as the specification words it\<close>

text \<open>Line items are pairs of unit price and quantity. The subtotal is the sum of the
  products; tax is the subtotal times 0.18, rounded; shipping is free above 1000 and 100
  otherwise; a percentage coupon takes the rounded percentage of the subtotal, a fixed
  coupon its amount, no coupon nothing; the total is not clamped. Read as arithmetic on
  exact numbers this is \<open>spec_pricing\<close>.\<close>

definition spec_subtotal :: "(rat \<times> int) list \<Rightarrow> rat" where
  "spec_subtotal lines = sum_list (map (\<lambda>(unitPrice, quantity). unitPrice * of_int quantity) lines)"

definition spec_discount :: "rat \<Rightarrow> coupon option \<Rightarrow> rat" where
  "spec_discount subtotal cpn =
     (case cpn of
        None \<Rightarrow> 0
      | Some c \<Rightarrow>
          if c_type c = ''percentage'' then of_int (round (subtotal * c_discount c / 100))
          else if c_type c = ''fixed'' then c_discount c
          else 0)"

definition spec_pricing :: "(rat \<times> int) list \<Rightarrow> coupon option \<Rightarrow> pricing" where
  "spec_pricing lines cpn =
     (let subtotal = spec_subtotal lines;
          tax = of_int (round (subtotal * (18 / 100)));
          shippingCost = (if subtotal > 1000 then 0 else 100);
          discount = spec_discount subtotal cpn
      in \<lparr>pr_subtotal = subtotal, pr_tax = tax, pr_shippingCost = shippingCost,
          pr_discount = discount, pr_total = subtotal + tax + shippingCost - discount\<rparr>)"

section \<open>The pricing rule in double arithmetic\<close>









fun response_data :: "'a response \<Rightarrow> 'a option" where
  "response_data (Success _ x) = Some x"
| "response_data (Failure _ _) = None"

section \<open>Quantities held by an order\<close>

text \<open>The quantity an order holds of one product, over all its line items.\<close>

definition ordered_quantity :: "object_id \<Rightarrow> order_item list \<Rightarrow> int" where
  "ordered_quantity pid items = sum_list (map oi_quantity (filter (\<lambda>i. oi_product i = pid) items))"

section \<open>Effects of a route on stored orders\<close>

text \<open>The payment status a route assigns when it saves an order: verification writes
  completed, the payment.failed webhook writes failed, cod/process writes pending; the other
  routes assign none.\<close>

fun payment_write :: "request \<Rightarrow> payment_status option" where
  "payment_write (VerifyPayment _ _) = Some pay_completed"
| "payment_write (PaymentWebhook _ body) =
     (if wb_event body = ''payment.failed'' then Some pay_failed else None)"
| "payment_write (ProcessCod _ _) = Some pay_pending"
| "payment_write _ = None"

text \<open>A route saves one loaded order once: same id, same timeline in the document
  handed to the save, and the payment status it had or the one the route writes.\<close>

definition saves_one :: "config \<Rightarrow> date_time \<Rightarrow> request \<Rightarrow> db \<Rightarrow> bool" where
  "saves_one cfg date r d =
     (\<exists>loaded doc. loaded \<in> set (db_orders d) \<and> o_id doc = o_id loaded \<and>
        o_timeline doc = o_timeline loaded \<and>
        (pi_status (o_paymentInfo doc) = pi_status (o_paymentInfo loaded) \<or>
         payment_write r = Some (pi_status (o_paymentInfo doc))) \<and>
        db_orders (handle cfg date r d) = snd (Order_save date loaded doc (db_orders d)))"

section \<open>Order numbers of a day\<close>







section \<open>Sample store and requests\<close>

definition sample_address :: address where
  "sample_address =
     \<lparr>a_firstName = ''Asha'', a_lastName = ''Rao'', a_addressLine1 = ''12 MG Road'',
      a_addressLine2 = [], a_city = ''Pune'', a_state = ''Maharashtra'', a_pincode = ''411001'',
      a_country = [], a_phone = ''9876543210'', a_sameAsShipping = None\<rparr>"

definition sample_payment :: payment_info where
  "sample_payment =
     \<lparr>pi_method = razorpay, pi_transactionId = None, pi_paymentId = None, pi_orderId = None,
      pi_signature = None, pi_status = pay_pending, pi_paidAt = None, pi_failureReason = None\<rparr>"

definition sample_silk :: product where
  "sample_silk =
     \<lparr>p_id = 1, p_name = ''Silk'', p_price = 500, p_stock = 5, p_images = [],
      p_isActive = True, p_sku = ''SLK-1''\<rparr>"

definition sample_cotton :: product where
  "sample_cotton =
     \<lparr>p_id = 2, p_name = ''Cotton'', p_price = 300, p_stock = 1, p_images = [],
      p_isActive = True, p_sku = ''CTN-2''\<rparr>"

definition sample_user :: user where
  "sample_user = \<lparr>u_id = 7, u_cart = [\<lparr>ci_product = 1, ci_quantity = 1, ci_size = []\<rparr>]\<rparr>"

definition sample_db :: db where
  "sample_db =
     \<lparr>db_products = [sample_silk, sample_cotton], db_orders = [], db_users = [sample_user]\<rparr>"

text \<open>3 November 2025, 07:00 UTC.\<close>

definition sample_date :: date_time where
  "sample_date = \<lparr>getFullYear = 2025, getMonth = 10, getDate = 3, getTime = 1762153200000\<rparr>"

definition sample_random :: string where
  "sample_random = ''0.4fzyo82mvyr''"

text \<open>Two line items: two Silk (five in stock), then three Cotton (one in stock).\<close>

definition two_item_request :: create_request where
  "two_item_request =
     \<lparr>rq_items = [\<lparr>ri_product = 1, ri_quantity = 2, ri_size = []\<rparr>,
                  \<lparr>ri_product = 2, ri_quantity = 3, ri_size = []\<rparr>],
      rq_shippingAddress = sample_address, rq_billingAddress = None,
      rq_paymentInfo = sample_payment, rq_coupon = None\<rparr>"

definition single_item_request :: "coupon option \<Rightarrow> create_request" where
  "single_item_request cpn =
     \<lparr>rq_items = [\<lparr>ri_product = 1, ri_quantity = 1, ri_size = []\<rparr>],
      rq_shippingAddress = sample_address, rq_billingAddress = None,
      rq_paymentInfo = sample_payment, rq_coupon = cpn\<rparr>"

definition codeless_coupon :: coupon where
  "codeless_coupon = \<lparr>c_code = [], c_discount = 10, c_type = ''percentage''\<rparr>"

definition save10_coupon :: coupon where
  "save10_coupon = \<lparr>c_code = ''SAVE10'', c_discount = 10, c_type = ''percentage''\<rparr>"

text \<open>A store whose only product costs 50, a request for one of it, and a 29 percent
  coupon: \<^verbatim>\<open>50 * (29 / 100)\<close> is 14.499999999999998 in doubles.\<close>

definition sample_ribbon :: product where
  "sample_ribbon =
     \<lparr>p_id = 3, p_name = ''Ribbon'', p_price = 50, p_stock = 10, p_images = [],
      p_isActive = True, p_sku = ''RBN-3''\<rparr>"

definition ribbon_db :: db where
  "ribbon_db = \<lparr>db_products = [sample_ribbon], db_orders = [], db_users = [sample_user]\<rparr>"

definition ribbon_request :: "coupon option \<Rightarrow> create_request" where
  "ribbon_request cpn =
     \<lparr>rq_items = [\<lparr>ri_product = 3, ri_quantity = 1, ri_size = []\<rparr>],
      rq_shippingAddress = sample_address, rq_billingAddress = None,
      rq_paymentInfo = sample_payment, rq_coupon = cpn\<rparr>"

definition save29_coupon :: coupon where
  "save29_coupon = \<lparr>c_code = ''SAVE29'', c_discount = 29, c_type = ''percentage''\<rparr>"

text \<open>An order of two Silk for user 7, in a given order status and payment status.\<close>

definition sample_order :: "order_status \<Rightarrow> payment_status \<Rightarrow> order" where
  "sample_order st ps =
     \<lparr>o_id = 100, o_orderNumber = ''ORD-MHISIN40-4FZYO'', o_user = 7,
      o_items = [\<lparr>oi_product = 1, oi_name = ''Silk'', oi_price = 500, oi_quantity = 2,
                  oi_size = [], oi_image = [], oi_sku = ''SLK-1''\<rparr>],
      o_shippingAddress = sample_address, o_billingAddress = sample_address,
      o_paymentInfo = sample_payment\<lparr>pi_orderId := Some ''order_N1'', pi_status := ps\<rparr>,
      o_pricing = \<lparr>pr_subtotal = 1000, pr_tax = 180, pr_shippingCost = 100, pr_discount = 0,
                   pr_total = 1280\<rparr>,
      o_coupon = None, o_status = st,
      o_tracking = \<lparr>tr_trackingNumber = None, tr_courier = None, tr_estimatedDelivery = None\<rparr>,
      o_cancellation = None,
      o_timeline = [\<lparr>tl_status = pending, tl_message = ''Order pending'',
                     tl_timestamp = 1762150000000\<rparr>]\<rparr>"

definition sample_store :: "order_status \<Rightarrow> payment_status \<Rightarrow> db" where
  "sample_store st ps = sample_db\<lparr>db_orders := [sample_order st ps]\<rparr>"

text \<open>A configuration with a stand-in for the keyed digest and for the body text.\<close>

definition sample_config :: "string option \<Rightarrow> config" where
  "sample_config webhookSecret =
     \<lparr>hmac_sha256_hex = (\<lambda>key data. ''mac:'' @ key @ '':'' @ data),
      JSON_stringify = (\<lambda>body. wb_event body),
      RAZORPAY_KEY_SECRET = ''key_secret'',
      RAZORPAY_WEBHOOK_SECRET = webhookSecret\<rparr>"

definition sample_verify_request :: "string \<Rightarrow> verify_request" where
  "sample_verify_request signature =
     \<lparr>vr_razorpay_order_id = ''order_N1'', vr_razorpay_payment_id = ''pay_P1'',
      vr_razorpay_signature = signature, vr_orderId = 100\<rparr>"

definition failed_event :: webhook_body where
  "failed_event =
     \<lparr>wb_event = ''payment.failed'',
      wb_entity = Some \<lparr>pe_id = ''pay_P2'', pe_order_id = ''order_N1'',
                        pe_error_description = Some ''Payment declined''\<rparr>\<rparr>"

text \<open>The store with the sample order paid cash on delivery, and a creation request whose
  payment information carries the status refunded.\<close>

definition cod_store :: "payment_status \<Rightarrow> db" where
  "cod_store ps =
     sample_db\<lparr>db_orders :=
       [(sample_order pending ps)
          \<lparr>o_paymentInfo := (o_paymentInfo (sample_order pending ps))\<lparr>pi_method := cod\<rparr>\<rparr>]\<rparr>"

definition refunded_request :: create_request where
  "refunded_request =
     (single_item_request None)\<lparr>rq_paymentInfo := sample_payment\<lparr>pi_status := pay_refunded\<rparr>\<rparr>"

definition sample_status_update :: "order_status \<Rightarrow> status_update" where
  "sample_status_update st =
     \<lparr>su_status = st, su_trackingNumber = None, su_courier = None, su_estimatedDelivery = None\<rparr>"


section \<open>Evaluation helpers\<close>

lemma floor_numeral_divide: "\<lfloor>numeral a / numeral b :: rat\<rfloor> = numeral a div numeral b"
  using floor_divide_of_int_eq [of "numeral a" "numeral b", where ?'a = rat] by simp

text \<open>Number arithmetic on numerals is evaluated by unfolding \<open>double\<close>, after the
  handler itself has been unfolded.\<close>

lemmas double_eval =
  double_def quantum_def log2_floor_def log2_estimate_def round_even_def pow2_def compute_bitlen
  floor_numeral_divide js_mul_def js_div_def js_add_def js_sub_def Math_round_def

lemma calculate_pricing_eval:
  "calculate_pricing subtotal cpn =
     \<lparr>pr_subtotal = subtotal, pr_tax = Math_round (js_mul subtotal (18 / 100)),
      pr_shippingCost = (if subtotal > 1000 then 0 else 100),
      pr_discount = coupon_discount subtotal cpn,
      pr_total = js_sub (js_add (js_add subtotal (Math_round (js_mul subtotal (18 / 100))))
                   (if subtotal > 1000 then 0 else 100)) (coupon_discount subtotal cpn)\<rparr>"
  by (simp add: calculate_pricing_def Let_def)

lemmas create_order_defs =
  createOrder_def create_request_valid_def all_digits_def is_digit_def Product_find_active_def
  Product_save_def insufficient_stock_message_def int_toString_def toString_def
  toString_radix.simps digit_char_def order_item_of_def calculate_pricing_eval coupon_discount_def
  new_order_def final_billing_address_def Order_insert_def
  order_pre_save_def isModified_status_def timeline_entry_for_def generateOrderNumber_def
  toUpperCase_def toUpperCase_char_def substr_def User_findById_def Let_def

lemmas sample_defs =
  sample_db_def sample_silk_def sample_cotton_def sample_user_def sample_date_def
  sample_random_def sample_address_def sample_payment_def two_item_request_def
  single_item_request_def codeless_coupon_def save10_coupon_def sample_ribbon_def ribbon_db_def
  ribbon_request_def save29_coupon_def

section \<open>Lists, lookups and the creation loop\<close>


lemma find_Some_set: "find P xs = Some x \<Longrightarrow> x \<in> set xs \<and> P x"
  by (induction xs) (auto split: if_splits)


lemma pre_save_fields:
  "o_pricing (order_pre_save date m os doc) = o_pricing doc"
  "o_items (order_pre_save date m os doc) = o_items doc"
  "o_id (order_pre_save date m os doc) = o_id doc"
  "o_status (order_pre_save date m os doc) = o_status doc"
  "o_paymentInfo (order_pre_save date m os doc) = o_paymentInfo doc"
  "o_cancellation (order_pre_save date m os doc) = o_cancellation doc"
  "o_user (order_pre_save date m os doc) = o_user doc"
  by (simp_all add: order_pre_save_def Let_def)






lemma createOrder_Success:
  assumes "createOrder date random new_id req_user rq d = (Success c ord, d')"
  obtains uid orderItems subtotal stored os u where
    "create_request_valid rq" "req_user = Some uid"
    "length (Product_find_active (map ri_product (rq_items rq)) (db_products d)) = length (rq_items rq)"
    "stock_loop (rq_items rq) (Product_find_active (map ri_product (rq_items rq)) (db_products d))
       (db_products d) [] 0 = Inr (orderItems, subtotal, stored)"
    "Order_insert date (new_order new_id (generateOrderNumber date random) uid rq orderItems subtotal)
       (db_orders d) = Some (ord, os)"
    "User_findById uid (db_users d) = Some u"
    "c = 201"
    "d' = d\<lparr>db_products := stored, db_orders := os,
            db_users := update_first (\<lambda>x. u_id x = uid) (\<lambda>x. x\<lparr>u_cart := []\<rparr>) (db_users d)\<rparr>"
  using assms
  by (auto simp: createOrder_def Let_def split: if_splits option.splits sum.splits prod.splits)

lemma find_update_first_same:
  "find P xs = Some x \<Longrightarrow> P (f x) \<Longrightarrow> find P (update_first P f xs) = Some (f x)"
  by (induction xs) (auto split: if_splits)

lemma Order_insert_Some:
  "Order_insert date doc os = Some (saved, os') \<Longrightarrow>
     saved = order_pre_save date True os doc \<and> os' = os @ [saved] \<and>
     o_id saved \<notin> set (map o_id os) \<and> o_orderNumber saved \<notin> set (map o_orderNumber os)"
  by (auto simp: Order_insert_def Let_def isModified_status_def split: if_splits)

lemma find_exists: "x \<in> set xs \<Longrightarrow> P x \<Longrightarrow> \<exists>z. find P xs = Some z"
  by (induction xs) auto

lemma update_first_distinct:
  "distinct (map k xs) \<Longrightarrow>
   update_first (\<lambda>x. k x = a) f xs = map (\<lambda>x. if k x = a then f x else x) xs"
proof (induction xs)
  case Nil
  then show ?case by simp
next
  case (Cons x xs)
  show ?case
  proof (cases "k x = a")
    case True
    from Cons.prems have "k x \<notin> k ` set xs" by simp
    with True have "\<forall>y\<in>set xs. k y \<noteq> a" by (metis image_eqI)
    then have "map (\<lambda>x. if k x = a then f x else x) xs = xs"
      by (induction xs) auto
    with True show ?thesis by simp
  next
    case False
    with Cons show ?thesis by simp
  qed
qed

lemma map_key_update_first:
  "(\<And>x. k (f x) = k x) \<Longrightarrow> map k (update_first P f xs) = map k xs"
  by (induction xs) auto

lemma Product_inc_stock_ids: "map p_id (Product_inc_stock pid n ps) = map p_id ps"
  by (simp add: Product_inc_stock_def map_key_update_first)

lemma Product_inc_stock_distinct:
  "distinct (map p_id ps) \<Longrightarrow>
   Product_inc_stock pid n ps =
     map (\<lambda>p. if p_id p = pid then p\<lparr>p_stock := p_stock p + n\<rparr> else p) ps"
  unfolding Product_inc_stock_def by (rule update_first_distinct)

lemma restore_stock_distinct:
  "distinct (map p_id ps) \<Longrightarrow>
   restore_stock items ps =
     map (\<lambda>p. p\<lparr>p_stock := p_stock p + ordered_quantity (p_id p) items\<rparr>) ps"
proof (induction items arbitrary: ps)
  case Nil
  then show ?case by (simp add: ordered_quantity_def)
next
  case (Cons item items)
  have d: "distinct (map p_id (Product_inc_stock (oi_product item) (oi_quantity item) ps))"
    using Cons.prems by (simp add: Product_inc_stock_ids)
  have "restore_stock (item # items) ps =
      restore_stock items (Product_inc_stock (oi_product item) (oi_quantity item) ps)"
    by simp
  also have "\<dots> = map (\<lambda>p. p\<lparr>p_stock := p_stock p + ordered_quantity (p_id p) items\<rparr>)
      (Product_inc_stock (oi_product item) (oi_quantity item) ps)"
    by (rule Cons.IH [OF d])
  also have "\<dots> = map (\<lambda>p. p\<lparr>p_stock := p_stock p + ordered_quantity (p_id p) items\<rparr>)
      (map (\<lambda>p. if p_id p = oi_product item then p\<lparr>p_stock := p_stock p + oi_quantity item\<rparr>
                else p) ps)"
    by (simp only: Product_inc_stock_distinct [OF Cons.prems])
  also have "\<dots> =
      map (\<lambda>p. p\<lparr>p_stock := p_stock p + ordered_quantity (p_id p) (item # items)\<rparr>) ps"
    by (auto simp: ordered_quantity_def)
  finally show ?case .
qed

lemma ordered_quantity_single:
  "distinct (map oi_product items) \<Longrightarrow> item \<in> set items \<Longrightarrow>
   ordered_quantity (oi_product item) items = oi_quantity item"
proof (induction items)
  case Nil
  then show ?case by simp
next
  case (Cons a items)
  show ?case
  proof (cases "item = a")
    case True
    from Cons.prems(1) have "oi_product a \<notin> oi_product ` set items" by simp
    then have "\<forall>i\<in>set items. oi_product i \<noteq> oi_product a" by (metis image_eqI)
    then have "filter (\<lambda>i. oi_product i = oi_product a) items = []"
      by (simp add: filter_empty_conv)
    with True show ?thesis by (simp add: ordered_quantity_def)
  next
    case False
    with Cons.prems have "item \<in> set items" "oi_product a \<noteq> oi_product item" by auto
    with Cons show ?thesis by (simp add: ordered_quantity_def)
  qed
qed

lemma Order_save_eq:
  "Order_save date loaded doc os =
     (order_pre_save date (o_status loaded \<noteq> o_status doc) os doc,
      update_first (\<lambda>x. o_id x = o_id doc)
        (\<lambda>_. order_pre_save date (o_status loaded \<noteq> o_status doc) os doc) os)"
  by (simp add: Order_save_def Let_def isModified_status_def pre_save_fields)

lemma Order_findById_saved:
  assumes "Order_findById oid os = Some ord" and "o_id saved = oid"
  shows "Order_findById oid (update_first (\<lambda>x. o_id x = oid) (\<lambda>_. saved) os) = Some saved"
  using assms find_update_first_same [of "\<lambda>x. o_id x = oid" os ord "\<lambda>_. saved"]
  by (simp add: Order_findById_def)

lemma Order_findById_id: "Order_findById oid os = Some ord \<Longrightarrow> o_id ord = oid \<and> ord \<in> set os"
  using find_Some_set [of "\<lambda>x. o_id x = oid" os ord] by (simp add: Order_findById_def)

lemmas store_defs =
  sample_store_def sample_order_def sample_db_def sample_silk_def sample_cotton_def
  sample_user_def sample_date_def sample_address_def sample_payment_def

lemmas cancel_defs =
  cancelOrder_def cancellable_def Order_findById_def Order_save_def order_pre_save_def
  isModified_status_def timeline_entry_for_def Product_inc_stock_def Let_def

lemmas payment_defs =
  verifyPayment_def verify_request_valid_def generated_signature_def handlePaymentWebhook_def
  webhook_signature_ok_def webhook_secret_set_def Order_findByPaymentOrderId_def processCod_def
  Order_findById_def Order_save_def order_pre_save_def isModified_status_def
  timeline_entry_for_def Let_def

lemmas payment_sample_defs =
  sample_config_def sample_verify_request_def failed_event_def cod_store_def refunded_request_def

section \<open>What a route does to the stored orders\<close>

lemma find_update_first_other:
  "(\<And>x. Q x \<Longrightarrow> \<not> P x) \<Longrightarrow> (\<And>x. Q x \<Longrightarrow> \<not> P (f x)) \<Longrightarrow>
   find P (update_first Q f xs) = find P xs"
  by (induction xs) auto

lemma find_append_Some: "find P xs = Some x \<Longrightarrow> find P (xs @ ys) = Some x"
  by (induction xs) (auto split: if_splits)

lemma distinct_key_eq:
  "distinct (map k xs) \<Longrightarrow> x \<in> set xs \<Longrightarrow> y \<in> set xs \<Longrightarrow> k x = k y \<Longrightarrow> x = y"
  by (meson distinct_map inj_onD)

lemma pre_save_timeline:
  "o_timeline (order_pre_save date m os doc) =
     o_timeline doc @ (if m then [timeline_entry_for date (o_status doc)] else [])"
  by (simp add: order_pre_save_def Let_def)

text \<open>What one save of a loaded order does to the order looked up under any id.\<close>

lemma Order_save_frame:
  assumes x: "Order_findById i os = Some x"
    and dist: "distinct (map o_id os)"
    and loaded: "loaded \<in> set os"
    and ids: "o_id doc = o_id loaded"
    and tl: "o_timeline doc = o_timeline loaded"
  shows "\<exists>y. Order_findById i (snd (Order_save date loaded doc os)) = Some y \<and>
      o_timeline y =
        o_timeline x @ (if o_status y \<noteq> o_status x then [timeline_entry_for date (o_status y)] else []) \<and>
      pi_status (o_paymentInfo y) =
        (if i = o_id loaded then pi_status (o_paymentInfo doc) else pi_status (o_paymentInfo x))"
proof (cases "i = o_id loaded")
  case True
  define saved where "saved = order_pre_save date (o_status loaded \<noteq> o_status doc) os doc"
  from Order_findById_id [OF x] True have "x \<in> set os" "o_id x = o_id loaded" by simp_all
  with dist loaded have xl: "x = loaded" by (metis distinct_key_eq)
  have sid: "o_id saved = i" by (simp add: saved_def pre_save_fields ids True)
  have "Order_findById i (snd (Order_save date loaded doc os)) = Some saved"
    using Order_findById_saved [OF x sid] by (simp add: Order_save_eq saved_def ids True)
  moreover have "o_timeline saved =
      o_timeline x @ (if o_status saved \<noteq> o_status x then [timeline_entry_for date (o_status saved)] else [])"
    by (auto simp: saved_def pre_save_timeline pre_save_fields tl xl)
  moreover have "pi_status (o_paymentInfo saved) = pi_status (o_paymentInfo doc)"
    by (simp add: saved_def pre_save_fields)
  ultimately show ?thesis using True by simp
next
  case False
  have "Order_findById i (snd (Order_save date loaded doc os)) = Order_findById i os"
    unfolding Order_findById_def Order_save_eq snd_conv
    by (rule find_update_first_other) (use False ids in \<open>simp_all add: pre_save_fields\<close>)
  with x False show ?thesis by simp
qed

lemma Order_insert_frame:
  assumes x: "Order_findById i os = Some x"
    and ins: "Order_insert date doc os = Some (saved, os')"
  shows "Order_findById i os' = Some x"
  using Order_insert_Some [OF ins] x by (simp add: Order_findById_def find_append_Some)

lemma createOrder_orders:
  "db_orders (snd (createOrder date random new_id req_user rq d)) = db_orders d \<or>
   (\<exists>doc saved. Order_insert date doc (db_orders d) =
      Some (saved, db_orders (snd (createOrder date random new_id req_user rq d))))"
  by (auto simp: createOrder_def Let_def split: if_splits option.splits sum.splits prod.splits)

lemma cancelOrder_orders:
  "db_orders (handle cfg date (CancelOrder u oid reason) d) = db_orders d \<or>
   saves_one cfg date (CancelOrder u oid reason) d"
proof (cases "db_orders (handle cfg date (CancelOrder u oid reason) d) = db_orders d")
  case True
  then show ?thesis by simp
next
  case False
  then obtain ord where f: "Order_findById oid (db_orders d) = Some ord"
    by (auto simp: cancelOrder_def Let_def split: if_splits option.splits prod.splits)
  define doc where "doc = ord
     \<lparr>o_status := cancelled,
      o_cancellation := Some
        \<lparr>cn_reason = (case reason of None \<Rightarrow> ''Cancelled by customer''
                       | Some r \<Rightarrow> if r = [] then ''Cancelled by customer'' else r),
         cn_cancelledAt = getTime date,
         cn_refundStatus = (if pi_status (o_paymentInfo ord) = pay_completed then refund_pending
                            else refund_processed),
         cn_refundAmount = (if pi_status (o_paymentInfo ord) = pay_completed
                            then pr_total (o_pricing ord) else 0)\<rparr>\<rparr>"
  from False f have "db_orders (handle cfg date (CancelOrder u oid reason) d) =
      snd (Order_save date ord doc (db_orders d))"
    by (auto simp: cancelOrder_def Let_def doc_def split: if_splits option.splits prod.splits)
  moreover have "ord \<in> set (db_orders d)" using Order_findById_id [OF f] by simp
  ultimately have "saves_one cfg date (CancelOrder u oid reason) d"
    unfolding saves_one_def by (intro exI [of _ ord] exI [of _ doc]) (simp add: doc_def)
  then show ?thesis by simp
qed

lemma updateOrderStatus_orders:
  "db_orders (handle cfg date (UpdateOrderStatus oid upd) d) = db_orders d \<or>
   saves_one cfg date (UpdateOrderStatus oid upd) d"
proof (cases "db_orders (handle cfg date (UpdateOrderStatus oid upd) d) = db_orders d")
  case True
  then show ?thesis by simp
next
  case False
  then obtain ord where f: "Order_findById oid (db_orders d) = Some ord"
    by (auto simp: updateOrderStatus_def Let_def split: if_splits option.splits prod.splits)
  define doc where "doc =
     (let t0 = o_tracking ord;
          t1 = (case su_trackingNumber upd of None \<Rightarrow> t0
                | Some n \<Rightarrow> t0\<lparr>tr_trackingNumber := Some n\<rparr>);
          t2 = (case su_courier upd of None \<Rightarrow> t1 | Some c \<Rightarrow> t1\<lparr>tr_courier := Some c\<rparr>);
          t3 = (case su_estimatedDelivery upd of None \<Rightarrow> t2
                | Some e \<Rightarrow> t2\<lparr>tr_estimatedDelivery := Some e\<rparr>)
      in ord\<lparr>o_status := su_status upd, o_tracking := t3\<rparr>)"
  from False f have
    "db_orders (handle cfg date (UpdateOrderStatus oid upd) d) =
       snd (Order_save date ord doc (db_orders d))"
    by (simp add: updateOrderStatus_def Let_def doc_def split: if_splits prod.splits)
  moreover have "o_id doc = o_id ord" "o_timeline doc = o_timeline ord"
    "o_paymentInfo doc = o_paymentInfo ord"
    by (simp_all add: doc_def Let_def)
  moreover have "ord \<in> set (db_orders d)" using Order_findById_id [OF f] by simp
  ultimately have "saves_one cfg date (UpdateOrderStatus oid upd) d"
    unfolding saves_one_def by (intro exI [of _ ord] exI [of _ doc]) simp
  then show ?thesis by simp
qed

lemma verifyPayment_orders:
  "db_orders (handle cfg date (VerifyPayment u rq) d) = db_orders d \<or>
   saves_one cfg date (VerifyPayment u rq) d"
proof (cases "db_orders (handle cfg date (VerifyPayment u rq) d) = db_orders d")
  case True
  then show ?thesis by simp
next
  case False
  then obtain ord where f: "Order_findById (vr_orderId rq) (db_orders d) = Some ord"
    by (auto simp: verifyPayment_def Let_def split: if_splits option.splits prod.splits)
  define doc where "doc = ord
     \<lparr>o_paymentInfo := (o_paymentInfo ord)
        \<lparr>pi_paymentId := Some (vr_razorpay_payment_id rq),
         pi_orderId := Some (vr_razorpay_order_id rq),
         pi_signature := Some (vr_razorpay_signature rq),
         pi_status := pay_completed,
         pi_paidAt := Some (getTime date)\<rparr>,
      o_status := confirmed\<rparr>"
  from False f have
    "db_orders (handle cfg date (VerifyPayment u rq) d) =
       snd (Order_save date ord doc (db_orders d))"
    by (auto simp: verifyPayment_def Let_def doc_def split: if_splits option.splits prod.splits)
  moreover have "o_id doc = o_id ord" "o_timeline doc = o_timeline ord"
    "pi_status (o_paymentInfo doc) = pay_completed"
    by (simp_all add: doc_def)
  moreover have "ord \<in> set (db_orders d)" using Order_findById_id [OF f] by simp
  ultimately have "saves_one cfg date (VerifyPayment u rq) d"
    unfolding saves_one_def by (intro exI [of _ ord] exI [of _ doc]) simp
  then show ?thesis by simp
qed

lemma processCod_orders:
  "db_orders (handle cfg date (ProcessCod u oid) d) = db_orders d \<or>
   saves_one cfg date (ProcessCod u oid) d"
proof (cases "db_orders (handle cfg date (ProcessCod u oid) d) = db_orders d")
  case True
  then show ?thesis by simp
next
  case False
  then obtain ord where f: "Order_findById oid (db_orders d) = Some ord"
    by (auto simp: processCod_def Let_def split: if_splits option.splits prod.splits)
  define doc where "doc = ord
     \<lparr>o_status := confirmed, o_paymentInfo := (o_paymentInfo ord)\<lparr>pi_status := pay_pending\<rparr>\<rparr>"
  from False f have
    "db_orders (handle cfg date (ProcessCod u oid) d) =
       snd (Order_save date ord doc (db_orders d))"
    by (auto simp: processCod_def Let_def doc_def split: if_splits option.splits prod.splits)
  moreover have "o_id doc = o_id ord" "o_timeline doc = o_timeline ord"
    "pi_status (o_paymentInfo doc) = pay_pending"
    by (simp_all add: doc_def)
  moreover have "ord \<in> set (db_orders d)" using Order_findById_id [OF f] by simp
  ultimately have "saves_one cfg date (ProcessCod u oid) d"
    unfolding saves_one_def by (intro exI [of _ ord] exI [of _ doc]) simp
  then show ?thesis by simp
qed

lemma webhook_orders:
  "db_orders (handle cfg date (PaymentWebhook s body) d) = db_orders d \<or>
   saves_one cfg date (PaymentWebhook s body) d"
proof (cases "db_orders (handle cfg date (PaymentWebhook s body) d) = db_orders d")
  case True
  then show ?thesis by simp
next
  case False
  then obtain e ord where ev: "wb_event body = ''payment.failed''" "wb_entity body = Some e"
    and f: "Order_findByPaymentOrderId (pe_order_id e) (db_orders d) = Some ord"
    by (auto simp: handlePaymentWebhook_def Let_def split: if_splits option.splits prod.splits)
  define doc where "doc = ord
     \<lparr>o_paymentInfo := (o_paymentInfo ord)
        \<lparr>pi_status := pay_failed, pi_failureReason := pe_error_description e\<rparr>\<rparr>"
  from False ev f have
    "db_orders (handle cfg date (PaymentWebhook s body) d) =
       snd (Order_save date ord doc (db_orders d))"
    by (auto simp: handlePaymentWebhook_def Let_def doc_def split: if_splits option.splits prod.splits)
  moreover have "o_id doc = o_id ord" "o_timeline doc = o_timeline ord"
    "pi_status (o_paymentInfo doc) = pay_failed"
    by (simp_all add: doc_def)
  moreover have "ord \<in> set (db_orders d)"
    using f find_Some_set [of "\<lambda>y. pi_orderId (o_paymentInfo y) = Some (pe_order_id e)"
        "db_orders d" ord]
    by (simp add: Order_findByPaymentOrderId_def)
  ultimately have "saves_one cfg date (PaymentWebhook s body) d"
    unfolding saves_one_def using ev by (intro exI [of _ ord] exI [of _ doc]) simp
  then show ?thesis by simp
qed

lemma handle_orders:
  "db_orders (handle cfg date r d) = db_orders d \<or>
   (\<exists>doc saved. Order_insert date doc (db_orders d) = Some (saved, db_orders (handle cfg date r d))) \<or>
   saves_one cfg date r d"
proof (cases r)
  case (CreateOrder random new_id req_user rq)
  then show ?thesis using createOrder_orders [of date random new_id req_user rq d] by auto
next
  case (CancelOrder u oid reason)
  then show ?thesis using cancelOrder_orders [of cfg date u oid reason d] by auto
next
  case (UpdateOrderStatus oid upd)
  then show ?thesis using updateOrderStatus_orders [of cfg date oid upd d] by auto
next
  case (VerifyPayment u rq)
  then show ?thesis using verifyPayment_orders [of cfg date u rq d] by auto
next
  case (PaymentWebhook s body)
  then show ?thesis using webhook_orders [of cfg date s body d] by auto
next
  case (ProcessCod u oid)
  then show ?thesis using processCod_orders [of cfg date u oid d] by auto
qed

lemma handle_frame:
  assumes dist: "distinct (map o_id (db_orders d))"
    and x: "Order_findById i (db_orders d) = Some x"
  shows "\<exists>y. Order_findById i (db_orders (handle cfg date r d)) = Some y \<and>
      o_timeline y =
        o_timeline x @ (if o_status y \<noteq> o_status x then [timeline_entry_for date (o_status y)] else []) \<and>
      (pi_status (o_paymentInfo y) = pi_status (o_paymentInfo x) \<or>
       payment_write r = Some (pi_status (o_paymentInfo y)))"
proof -
  consider (same) "db_orders (handle cfg date r d) = db_orders d"
    | (ins) doc saved where
        "Order_insert date doc (db_orders d) = Some (saved, db_orders (handle cfg date r d))"
    | (save) "saves_one cfg date r d"
    using handle_orders [of cfg date r d] by blast
  then show ?thesis
  proof cases
    case same
    with x show ?thesis by simp
  next
    case ins
    from Order_insert_frame [OF x ins] show ?thesis by simp
  next
    case save
    then obtain loaded doc where l: "loaded \<in> set (db_orders d)" "o_id doc = o_id loaded"
      "o_timeline doc = o_timeline loaded"
      and p: "pi_status (o_paymentInfo doc) = pi_status (o_paymentInfo loaded) \<or>
         payment_write r = Some (pi_status (o_paymentInfo doc))"
      and eq: "db_orders (handle cfg date r d) = snd (Order_save date loaded doc (db_orders d))"
      unfolding saves_one_def by blast
    from Order_save_frame [OF x dist l, of date] obtain y where
      y: "Order_findById i (snd (Order_save date loaded doc (db_orders d))) = Some y"
      "o_timeline y =
        o_timeline x @ (if o_status y \<noteq> o_status x then [timeline_entry_for date (o_status y)] else [])"
      "pi_status (o_paymentInfo y) =
        (if i = o_id loaded then pi_status (o_paymentInfo doc) else pi_status (o_paymentInfo x))"
      by blast
    have "pi_status (o_paymentInfo y) = pi_status (o_paymentInfo x) \<or>
       payment_write r = Some (pi_status (o_paymentInfo y))"
    proof (cases "i = o_id loaded")
      case True
      from Order_findById_id [OF x] True have "x \<in> set (db_orders d)" "o_id x = o_id loaded"
        by simp_all
      with dist l(1) have "x = loaded" by (metis distinct_key_eq)
      with p y(3) True show ?thesis by auto
    next
      case False
      with y(3) show ?thesis by simp
    qed
    with y(1,2) eq show ?thesis by auto
  qed
qed

lemmas route_defs =
  updateOrderStatus_def cancel_defs payment_defs

lemma webhook_failed_saved:
  assumes ok: "webhook_signature_ok cfg s body"
    and ev: "wb_event body = ''payment.failed''" "wb_entity body = Some e"
    and f: "Order_findByPaymentOrderId (pe_order_id e) (db_orders d) = Some x"
  shows "\<exists>y. Order_findById (o_id x) (db_orders (snd (handlePaymentWebhook cfg date s body d))) = Some y \<and>
      pi_status (o_paymentInfo y) = pay_failed"
proof -
  define doc where "doc = x\<lparr>o_paymentInfo := (o_paymentInfo x)
       \<lparr>pi_status := pay_failed, pi_failureReason := pe_error_description e\<rparr>\<rparr>"
  define saved where "saved = order_pre_save date False (db_orders d) doc"
  from ok ev f have run: "handlePaymentWebhook cfg date s body d =
      (Success 200 (), d\<lparr>db_orders :=
         update_first (\<lambda>y. o_id y = o_id x) (\<lambda>_. saved) (db_orders d)\<rparr>)"
    by (simp add: handlePaymentWebhook_def Let_def Order_save_eq doc_def saved_def)
  from f have "x \<in> set (db_orders d)"
    using find_Some_set [of "\<lambda>y. pi_orderId (o_paymentInfo y) = Some (pe_order_id e)"
        "db_orders d" x]
    by (simp add: Order_findByPaymentOrderId_def)
  then obtain z where z: "Order_findById (o_id x) (db_orders d) = Some z"
    using find_exists [of x "db_orders d" "\<lambda>y. o_id y = o_id x"]
    by (auto simp: Order_findById_def)
  have sid: "o_id saved = o_id x"
    by (simp add: saved_def pre_save_fields doc_def)
  have "Order_findById (o_id x)
      (update_first (\<lambda>y. o_id y = o_id x) (\<lambda>_. saved) (db_orders d)) = Some saved"
    by (rule Order_findById_saved [OF z sid])
  moreover have "pi_status (o_paymentInfo saved) = pay_failed"
    by (simp add: saved_def pre_save_fields doc_def)
  ultimately show ?thesis by (simp add: run)
qed

lemma verifyPayment_saved:
  assumes "verifyPayment cfg date u rq d = (Success c data, d')"
  shows "\<exists>y. Order_findById (vr_orderId rq) (db_orders d') = Some y \<and>
      pi_status (o_paymentInfo y) = pay_completed"
proof -
  from assms obtain ord where f: "Order_findById (vr_orderId rq) (db_orders d) = Some ord"
    by (auto simp: verifyPayment_def Let_def split: if_splits option.splits prod.splits)
  define doc where "doc = ord
     \<lparr>o_paymentInfo := (o_paymentInfo ord)
        \<lparr>pi_paymentId := Some (vr_razorpay_payment_id rq),
         pi_orderId := Some (vr_razorpay_order_id rq),
         pi_signature := Some (vr_razorpay_signature rq),
         pi_status := pay_completed,
         pi_paidAt := Some (getTime date)\<rparr>,
      o_status := confirmed\<rparr>"
  define saved where "saved = order_pre_save date (o_status ord \<noteq> o_status doc) (db_orders d) doc"
  from assms f have d': "db_orders d' =
      update_first (\<lambda>y. o_id y = vr_orderId rq) (\<lambda>_. saved) (db_orders d)"
    using Order_findById_id [OF f]
    by (auto simp: verifyPayment_def Let_def Order_save_eq doc_def saved_def
        split: if_splits option.splits prod.splits)
  have sid: "o_id saved = vr_orderId rq"
    using Order_findById_id [OF f] by (simp add: saved_def pre_save_fields doc_def)
  from Order_findById_saved [OF f sid] have "Order_findById (vr_orderId rq) (db_orders d') = Some saved"
    by (simp add: d')
  moreover have "pi_status (o_paymentInfo saved) = pay_completed"
    by (simp add: saved_def pre_save_fields doc_def)
  ultimately show ?thesis by blast
qed

lemma processCod_saved:
  assumes "processCod date u oid d = (Success c data, d')"
  shows "\<exists>y. Order_findById oid (db_orders d') = Some y \<and>
      pi_status (o_paymentInfo y) = pay_pending"
proof -
  from assms obtain ord where f: "Order_findById oid (db_orders d) = Some ord"
    by (auto simp: processCod_def Let_def split: if_splits option.splits prod.splits)
  define doc where "doc = ord
     \<lparr>o_status := confirmed,
      o_paymentInfo := (o_paymentInfo ord)\<lparr>pi_status := pay_pending\<rparr>\<rparr>"
  define saved where "saved = order_pre_save date (o_status ord \<noteq> o_status doc) (db_orders d) doc"
  from assms f have d': "db_orders d' =
      update_first (\<lambda>y. o_id y = oid) (\<lambda>_. saved) (db_orders d)"
    using Order_findById_id [OF f]
    by (auto simp: processCod_def Let_def Order_save_eq doc_def saved_def
        split: if_splits option.splits prod.splits)
  have sid: "o_id saved = oid"
    using Order_findById_id [OF f] by (simp add: saved_def pre_save_fields doc_def)
  from Order_findById_saved [OF f sid] have "Order_findById oid (db_orders d') = Some saved"
    by (simp add: d')
  moreover have "pi_status (o_paymentInfo saved) = pay_pending"
    by (simp add: saved_def pre_save_fields doc_def)
  ultimately show ?thesis by blast
qed

lemma createOrder_paymentInfo:
  assumes "createOrder date random new_id req_user rq d = (Success c ord, d')"
  shows "ord \<in> set (db_orders d') \<and> o_paymentInfo ord = rq_paymentInfo rq"
proof -
  from assms obtain uid orderItems subtotal stored os u where
    ins: "Order_insert date
            (new_order new_id (generateOrderNumber date random) uid rq orderItems subtotal)
            (db_orders d) = Some (ord, os)"
    and d': "d' = d\<lparr>db_products := stored, db_orders := os,
            db_users := update_first (\<lambda>x. u_id x = uid) (\<lambda>x. x\<lparr>u_cart := []\<rparr>) (db_users d)\<rparr>"
    by (rule createOrder_Success)
  from Order_insert_Some [OF ins] have "os = db_orders d @ [ord]"
    and "o_paymentInfo ord = rq_paymentInfo rq"
    by (simp_all add: pre_save_fields new_order_def)
  then show ?thesis by (simp add: d')
qed

section \<open>Decimal digits\<close>
















section \<open>Printing and padding numbers\<close>


















section \<open>The order number hook\<close>
















section \<open>Order creation and stock\<close>

text \<open>With unique product ids, one requested id without an active product makes the batch
  lookup return fewer products than were requested.\<close>

lemma Product_find_active_short:
  assumes dist: "distinct (map p_id ps)" and i: "i \<in> set ids"
    and missing: "\<not> (\<exists>p\<in>set ps. p_id p = i \<and> p_isActive p)"
  shows "length (Product_find_active ids ps) < length ids"
proof -
  let ?found = "Product_find_active ids ps"
  have "distinct (map p_id ?found)"
    unfolding Product_find_active_def using dist by (rule distinct_map_filter)
  then have "length ?found = card (set (map p_id ?found))"
    using distinct_card [of "map p_id ?found"] by simp
  also have "set (map p_id ?found) \<subseteq> set ids - {i}"
    using missing by (auto simp: Product_find_active_def)
  then have "card (set (map p_id ?found)) \<le> card (set ids - {i})"
    by (intro card_mono) simp_all
  also have "\<dots> < card (set ids)"
    using i by (intro card_Diff1_less) simp_all
  also have "\<dots> \<le> length ids" by (rule card_length)
  finally show ?thesis .
qed

lemma createOrder_unavailable_rejected:
  assumes "distinct (map p_id (db_products d))"
    and "item \<in> set (rq_items rq)"
    and "\<not> (\<exists>p\<in>set (db_products d). p_id p = ri_product item \<and> p_isActive p)"
  shows "\<exists>code message. createOrder date random new_id req_user rq d = (Failure code message, d)"
proof -
  from assms(2) have "ri_product item \<in> set (map ri_product (rq_items rq))" by simp
  from Product_find_active_short [OF assms(1) this assms(3)]
  have "length (Product_find_active (map ri_product (rq_items rq)) (db_products d))
      \<noteq> length (map ri_product (rq_items rq))"
    by simp
  then show ?thesis
    by (cases req_user) (simp_all add: createOrder_def Let_def)
qed

text \<open>
  C1. A request naming a product that is missing or inactive is rejected before any write
  (the two lemmas above). A request whose second line item lacks stock is rejected too, but
  only after the first item's stock was decremented and saved: in the sample store Silk
  goes from 5 to 3 although the call fails and no order exists afterwards.
\<close>

theorem createOrder_partial_decrement:
  "createOrder sample_date sample_random 100 (Some 7) two_item_request sample_db =
     (Failure 400 ''Insufficient stock for Cotton. Only 1 items available.'',
      sample_db\<lparr>db_products := [sample_silk\<lparr>p_stock := 3\<rparr>, sample_cotton]\<rparr>)"
  by (simp add: create_order_defs sample_defs)

section \<open>Pricing\<close>





text \<open>Double arithmetic is part of the recorded result. With a 29 percent coupon that has a
  code on a subtotal of 50, the rule on exact numbers gives discount 15 (14.5 rounded) and
  total 144; the order records 14 and 145.\<close>

lemma createOrder_double_rounding:
  "map_option o_pricing (response_data (fst (createOrder sample_date sample_random 100 (Some 7)
      (ribbon_request (Some save29_coupon)) ribbon_db))) =
     Some \<lparr>pr_subtotal = 50, pr_tax = 9, pr_shippingCost = 100, pr_discount = 14,
           pr_total = 145\<rparr> \<and>
   spec_pricing [(50, 1)] (Some save29_coupon) =
     \<lparr>pr_subtotal = 50, pr_tax = 9, pr_shippingCost = 100, pr_discount = 15, pr_total = 144\<rparr>"
proof
  show "map_option o_pricing (response_data (fst (createOrder sample_date sample_random 100
      (Some 7) (ribbon_request (Some save29_coupon)) ribbon_db))) =
     Some \<lparr>pr_subtotal = 50, pr_tax = 9, pr_shippingCost = 100, pr_discount = 14,
           pr_total = 145\<rparr>"
    apply (simp add: create_order_defs sample_defs)
    apply (simp add: double_eval)
    done
  show "spec_pricing [(50, 1)] (Some save29_coupon) =
     \<lparr>pr_subtotal = 50, pr_tax = 9, pr_shippingCost = 100, pr_discount = 15, pr_total = 144\<rparr>"
    by (simp add: spec_pricing_def spec_subtotal_def spec_discount_def round_def
        save29_coupon_def floor_numeral_divide)
qed

section \<open>Cart\<close>

text \<open>
  C9. After every successful createOrder the order is stored for the requesting user and
  that user's cart is empty. Whenever createOrder stores an order at all, the requesting
  user's cart, if the user still exists, is empty afterwards.
\<close>

theorem createOrder_clears_cart:
  "(createOrder date random new_id req_user rq d = (Success c ord, d') \<longrightarrow>
      (\<exists>uid u. req_user = Some uid \<and> o_user ord = uid \<and> ord \<in> set (db_orders d') \<and>
         User_findById uid (db_users d') = Some u \<and> u_cart u = [])) \<and>
   (db_orders (snd (createOrder date random new_id req_user rq d)) \<noteq> db_orders d \<longrightarrow>
      (\<forall>uid u. req_user = Some uid \<and>
         User_findById uid (db_users (snd (createOrder date random new_id req_user rq d))) = Some u
         \<longrightarrow> u_cart u = []))"
proof (intro conjI impI)
  assume run: "createOrder date random new_id req_user rq d = (Success c ord, d')"
  then obtain uid orderItems subtotal stored os u where
    uid: "req_user = Some uid"
    and ins: "Order_insert date
                (new_order new_id (generateOrderNumber date random) uid rq orderItems subtotal)
                (db_orders d) = Some (ord, os)"
    and u: "User_findById uid (db_users d) = Some u"
    and d': "d' = d\<lparr>db_products := stored, db_orders := os,
            db_users := update_first (\<lambda>x. u_id x = uid) (\<lambda>x. x\<lparr>u_cart := []\<rparr>) (db_users d)\<rparr>"
    by (rule createOrder_Success)
  from Order_insert_Some [OF ins] have "ord \<in> set os" "o_user ord = uid"
    by (simp_all add: pre_save_fields new_order_def)
  moreover from u have "User_findById uid (db_users d') = Some (u\<lparr>u_cart := []\<rparr>)"
    unfolding User_findById_def d'
    using find_update_first_same [of "\<lambda>x. u_id x = uid" "db_users d" u "\<lambda>x. x\<lparr>u_cart := []\<rparr>"]
      find_Some_set [of "\<lambda>x. u_id x = uid" "db_users d" u]
    by simp
  ultimately show "\<exists>uid u. req_user = Some uid \<and> o_user ord = uid \<and> ord \<in> set (db_orders d') \<and>
         User_findById uid (db_users d') = Some u \<and> u_cart u = []"
    using uid d' by simp
next
  assume changed: "db_orders (snd (createOrder date random new_id req_user rq d)) \<noteq> db_orders d"
  show "\<forall>uid u. req_user = Some uid \<and>
         User_findById uid (db_users (snd (createOrder date random new_id req_user rq d))) = Some u
         \<longrightarrow> u_cart u = []"
  proof (intro allI impI, elim conjE)
    fix uid u
    assume uid: "req_user = Some uid"
      and u: "User_findById uid (db_users (snd (createOrder date random new_id req_user rq d))) = Some u"
    show "u_cart u = []"
    proof (cases "User_findById uid (db_users d)")
      case None
      with changed uid have "db_users (snd (createOrder date random new_id req_user rq d)) = db_users d"
        by (auto simp: createOrder_def Let_def split: if_splits option.splits sum.splits prod.splits)
      with None u show ?thesis by simp
    next
      case (Some u0)
      with changed uid have
        "db_users (snd (createOrder date random new_id req_user rq d)) =
           update_first (\<lambda>x. u_id x = uid) (\<lambda>x. x\<lparr>u_cart := []\<rparr>) (db_users d)"
        by (auto simp: createOrder_def Let_def split: if_splits option.splits sum.splits prod.splits)
      with Some u show ?thesis
        unfolding User_findById_def
        using find_update_first_same [of "\<lambda>x. u_id x = uid" "db_users d" u0 "\<lambda>x. x\<lparr>u_cart := []\<rparr>"]
          find_Some_set [of "\<lambda>x. u_id x = uid" "db_users d" u0]
        by auto
    qed
  qed
qed

theorem createOrder_clears_cart_witness:
  "is_success (fst (createOrder sample_date sample_random 100 (Some 7)
      (single_item_request None) sample_db)) \<and>
   u_cart sample_user \<noteq> [] \<and>
   db_orders (snd (createOrder sample_date sample_random 100 (Some 7)
      (single_item_request None) sample_db)) \<noteq> db_orders sample_db \<and>
   map u_cart (db_users (snd (createOrder sample_date sample_random 100 (Some 7)
      (single_item_request None) sample_db))) = [Nil]"
proof -
  obtain c ord d' where run:
    "createOrder sample_date sample_random 100 (Some 7) (single_item_request None) sample_db
       = (Success c ord, d')"
    and users: "map u_id (db_users d') = [7]" and orders: "db_orders d' \<noteq> db_orders sample_db"
    by (simp add: create_order_defs sample_defs)
  from createOrder_clears_cart [of sample_date sample_random 100 "Some 7" "single_item_request None"
      sample_db c ord d'] run
  obtain u where "User_findById 7 (db_users d') = Some u" "u_cart u = []"
    by auto
  with users have "map u_cart (db_users d') = [Nil]"
    by (cases "db_users d'") (auto simp: User_findById_def split: if_splits)
  with run orders show ?thesis by (simp add: sample_user_def)
qed

section \<open>Cancellation\<close>

text \<open>
  C5. cancelOrder succeeds only for an order whose status is pending, confirmed or
  processing. For an order whose status is shipped, delivered, cancelled or returned the
  call answers with a 400 or 403 failure, never a crash, and the whole store is unchanged
  (order status, cancellation fields and every stock); for the owner with a well-formed
  request the failure is the 400 "Order cannot be cancelled at this stage".
\<close>

theorem cancelOrder_guard:
  "(is_success (fst (cancelOrder date u oid reason d)) \<longrightarrow>
      (\<exists>ord. Order_findById oid (db_orders d) = Some ord \<and>
         o_status ord \<in> {pending, confirmed, processing})) \<and>
   (\<forall>ord. Order_findById oid (db_orders d) = Some ord \<and>
         o_status ord \<in> {shipped, delivered, cancelled, returned} \<longrightarrow>
      snd (cancelOrder date u oid reason d) = d \<and>
      (\<exists>code message. fst (cancelOrder date u oid reason d) = Failure code message \<and>
         code \<in> {400, 403}) \<and>
      (o_user ord = u \<and> reason \<noteq> Some [] \<longrightarrow>
         fst (cancelOrder date u oid reason d) =
           Failure 400 ''Order cannot be cancelled at this stage''))"
  by (auto simp: cancelOrder_def cancellable_def Let_def split: option.splits prod.splits)


theorem cancelOrder_guard_witness:
  "Order_findById 100 (db_orders (sample_store shipped pay_completed)) =
     Some (sample_order shipped pay_completed) \<and>
   o_status (sample_order shipped pay_completed) \<in> {shipped, delivered, cancelled, returned} \<and>
   cancelOrder sample_date 7 100 None (sample_store shipped pay_completed) =
     (Failure 400 ''Order cannot be cancelled at this stage'', sample_store shipped pay_completed) \<and>
   is_success (fst (cancelOrder sample_date 7 100 None (sample_store processing pay_pending))) \<and>
   o_status (sample_order processing pay_pending) \<in> {pending, confirmed, processing}"
proof -
  have f: "Order_findById 100 (db_orders (sample_store shipped pay_completed)) =
     Some (sample_order shipped pay_completed)"
    by (simp add: store_defs Order_findById_def)
  have st: "o_status (sample_order shipped pay_completed) \<in> {shipped, delivered, cancelled, returned}"
    "o_user (sample_order shipped pay_completed) = 7"
    by (simp_all add: sample_order_def)
  have ok: "is_success (fst (cancelOrder sample_date 7 100 None (sample_store processing pay_pending)))"
    by (simp add: cancel_defs store_defs)
  from cancelOrder_guard [of sample_date 7 100 None "sample_store processing pay_pending"] ok
  have "\<exists>ord. Order_findById 100 (db_orders (sample_store processing pay_pending)) = Some ord \<and>
         o_status ord \<in> {pending, confirmed, processing}" by blast
  moreover have "Order_findById 100 (db_orders (sample_store processing pay_pending)) =
     Some (sample_order processing pay_pending)"
    by (simp add: store_defs Order_findById_def)
  ultimately have p: "o_status (sample_order processing pay_pending) \<in> {pending, confirmed, processing}"
    by auto
  from cancelOrder_guard [of sample_date 7 100 None "sample_store shipped pay_completed"] f st
  have "snd (cancelOrder sample_date 7 100 None (sample_store shipped pay_completed)) =
          sample_store shipped pay_completed"
    "fst (cancelOrder sample_date 7 100 None (sample_store shipped pay_completed)) =
           Failure 400 ''Order cannot be cancelled at this stage''"
    by auto
  then have "cancelOrder sample_date 7 100 None (sample_store shipped pay_completed) =
     (Failure 400 ''Order cannot be cancelled at this stage'', sample_store shipped pay_completed)"
    by (simp add: prod_eq_iff)
  with f st ok p show ?thesis by blast
qed

text \<open>
  C6. After a successful cancelOrder the stored order has status cancelled; its
  cancellation reason is the supplied one, or "Cancelled by customer" when none was given;
  refundStatus is pending and refundAmount the order total when the payment was completed,
  otherwise processed and 0; and every product's stock has grown by the quantity the order
  holds of it, which for line items of distinct products is exactly each item's quantity.
  Product ids are unique in the store.
\<close>

theorem cancelOrder_effects:
  assumes "cancelOrder date u oid reason d = (Success c saved, d')"
    and "distinct (map p_id (db_products d))"
  shows "\<exists>ord. Order_findById oid (db_orders d) = Some ord \<and> cancellable (o_status ord) \<and>
      o_status saved = cancelled \<and>
      Order_findById oid (db_orders d') = Some saved \<and>
      o_cancellation saved = Some
        \<lparr>cn_reason = (case reason of None \<Rightarrow> ''Cancelled by customer'' | Some r \<Rightarrow> r),
         cn_cancelledAt = getTime date,
         cn_refundStatus = (if pi_status (o_paymentInfo ord) = pay_completed then refund_pending
                            else refund_processed),
         cn_refundAmount = (if pi_status (o_paymentInfo ord) = pay_completed
                            then pr_total (o_pricing ord) else 0)\<rparr> \<and>
      o_items saved = o_items ord \<and>
      db_products d' =
        map (\<lambda>p. p\<lparr>p_stock := p_stock p + ordered_quantity (p_id p) (o_items ord)\<rparr>)
          (db_products d) \<and>
      (distinct (map oi_product (o_items ord)) \<longrightarrow>
         (\<forall>item\<in>set (o_items ord).
            ordered_quantity (oi_product item) (o_items ord) = oi_quantity item))"
proof -
  from assms(1) obtain ord where
    f: "Order_findById oid (db_orders d) = Some ord"
    and r: "reason \<noteq> Some []"
    and can: "cancellable (o_status ord)"
    by (auto simp: cancelOrder_def Let_def split: if_splits option.splits prod.splits)
  define doc where "doc = ord
     \<lparr>o_status := cancelled,
      o_cancellation := Some
        \<lparr>cn_reason = (case reason of None \<Rightarrow> ''Cancelled by customer''
                       | Some r \<Rightarrow> if r = [] then ''Cancelled by customer'' else r),
         cn_cancelledAt = getTime date,
         cn_refundStatus = (if pi_status (o_paymentInfo ord) = pay_completed then refund_pending
                            else refund_processed),
         cn_refundAmount = (if pi_status (o_paymentInfo ord) = pay_completed
                            then pr_total (o_pricing ord) else 0)\<rparr>\<rparr>"
  from assms(1) f r can have
    saved: "saved = fst (Order_save date ord doc (db_orders d))"
    and d': "d' = d\<lparr>db_orders := snd (Order_save date ord doc (db_orders d)),
                   db_products := restore_stock (o_items saved) (db_products d)\<rparr>"
    by (auto simp: cancelOrder_def Let_def doc_def split: if_splits option.splits prod.splits)
  from Order_findById_id [OF f] have oid: "o_id ord = oid" by simp
  have s1: "o_status saved = cancelled" "o_items saved = o_items ord" "o_id saved = oid"
    and s2: "o_cancellation saved = o_cancellation doc"
    by (simp_all add: saved Order_save_eq pre_save_fields doc_def oid)
  have reason_eq: "(case reason of None \<Rightarrow> ''Cancelled by customer''
                       | Some r \<Rightarrow> if r = [] then ''Cancelled by customer'' else r) =
     (case reason of None \<Rightarrow> ''Cancelled by customer'' | Some r \<Rightarrow> r)"
    using r by (cases reason) auto
  have found: "Order_findById oid (db_orders d') = Some saved"
    using Order_findById_saved [OF f s1(3)]
    by (simp add: d' saved Order_save_eq doc_def oid)
  have stock: "db_products d' =
        map (\<lambda>p. p\<lparr>p_stock := p_stock p + ordered_quantity (p_id p) (o_items ord)\<rparr>)
          (db_products d)"
    by (simp add: d' s1(2) restore_stock_distinct [OF assms(2)])
  have single: "distinct (map oi_product (o_items ord)) \<longrightarrow>
         (\<forall>item\<in>set (o_items ord).
            ordered_quantity (oi_product item) (o_items ord) = oi_quantity item)"
    using ordered_quantity_single by blast
  from f can s1 s2 found stock single reason_eq show ?thesis
    by (intro exI [of _ ord]) (simp add: doc_def)
qed

theorem cancelOrder_effects_witness:
  "distinct (map p_id (db_products (sample_store confirmed pay_completed))) \<and>
   is_success (fst (cancelOrder sample_date 7 100 None (sample_store confirmed pay_completed))) \<and>
   map p_stock (db_products (sample_store confirmed pay_completed)) = [5, 1] \<and>
   map p_stock (db_products (snd (cancelOrder sample_date 7 100 None
      (sample_store confirmed pay_completed)))) = [7, 1] \<and>
   map_option o_cancellation (response_data (fst (cancelOrder sample_date 7 100 None
      (sample_store confirmed pay_completed)))) =
     Some (Some \<lparr>cn_reason = ''Cancelled by customer'', cn_cancelledAt = 1762153200000,
                 cn_refundStatus = refund_pending, cn_refundAmount = 1280\<rparr>)"
proof -
  have dist: "distinct (map p_id (db_products (sample_store confirmed pay_completed)))"
    by (simp add: store_defs)
  obtain c saved d' where run:
    "cancelOrder sample_date 7 100 None (sample_store confirmed pay_completed) = (Success c saved, d')"
    by (simp add: cancel_defs store_defs)
  have f: "Order_findById 100 (db_orders (sample_store confirmed pay_completed)) =
     Some (sample_order confirmed pay_completed)"
    by (simp add: store_defs Order_findById_def)
  from cancelOrder_effects [OF run dist] f have
    c: "o_cancellation saved = Some \<lparr>cn_reason = ''Cancelled by customer'',
          cn_cancelledAt = getTime sample_date, cn_refundStatus = refund_pending,
          cn_refundAmount = pr_total (o_pricing (sample_order confirmed pay_completed))\<rparr>"
    and p: "db_products d' =
        map (\<lambda>p. p\<lparr>p_stock := p_stock p +
               ordered_quantity (p_id p) (o_items (sample_order confirmed pay_completed))\<rparr>)
          (db_products (sample_store confirmed pay_completed))"
    by (auto simp: sample_order_def sample_payment_def)
  from p have "map p_stock (db_products d') = [7, 1]"
    by (simp add: store_defs ordered_quantity_def)
  moreover have "map p_stock (db_products (sample_store confirmed pay_completed)) = [5, 1]"
    by (simp add: store_defs)
  ultimately show ?thesis using run dist c
    by (simp add: sample_order_def sample_date_def)
qed

section \<open>Payment verification and the webhook\<close>

text \<open>
  C7. A verifyPayment call whose signature differs from the HMAC-SHA256 of
  "orderId|paymentId" under the key secret changes nothing in the store and does not
  succeed; once the request fields are present its answer is the 400 "Payment verification
  failed". A call is accepted only when the supplied signature equals the recomputed one.
\<close>

theorem verifyPayment_signature_mismatch:
  "(vr_razorpay_signature rq \<noteq>
      hmac_sha256_hex cfg (RAZORPAY_KEY_SECRET cfg)
        (vr_razorpay_order_id rq @ ''|'' @ vr_razorpay_payment_id rq) \<longrightarrow>
      snd (verifyPayment cfg date u rq d) = d \<and>
      \<not> is_success (fst (verifyPayment cfg date u rq d)) \<and>
      (verify_request_valid rq \<longrightarrow>
         fst (verifyPayment cfg date u rq d) = Failure 400 ''Payment verification failed'')) \<and>
   (is_success (fst (verifyPayment cfg date u rq d)) \<longrightarrow>
      vr_razorpay_signature rq =
        hmac_sha256_hex cfg (RAZORPAY_KEY_SECRET cfg)
          (vr_razorpay_order_id rq @ ''|'' @ vr_razorpay_payment_id rq))"
  by (auto simp: verifyPayment_def generated_signature_def Let_def
      split: option.splits prod.splits)

theorem verifyPayment_signature_mismatch_witness:
  "vr_razorpay_signature (sample_verify_request ''forged'') \<noteq>
     hmac_sha256_hex (sample_config None) (RAZORPAY_KEY_SECRET (sample_config None))
       (vr_razorpay_order_id (sample_verify_request ''forged'') @ ''|'' @
        vr_razorpay_payment_id (sample_verify_request ''forged'')) \<and>
   verify_request_valid (sample_verify_request ''forged'') \<and>
   verifyPayment (sample_config None) sample_date 7 (sample_verify_request ''forged'')
       (sample_store pending pay_pending) =
     (Failure 400 ''Payment verification failed'', sample_store pending pay_pending) \<and>
   is_success (fst (verifyPayment (sample_config None) sample_date 7
       (sample_verify_request ''mac:key_secret:order_N1|pay_P1'') (sample_store pending pay_pending)))"
proof -
  have h: "vr_razorpay_signature (sample_verify_request ''forged'') \<noteq>
     hmac_sha256_hex (sample_config None) (RAZORPAY_KEY_SECRET (sample_config None))
       (vr_razorpay_order_id (sample_verify_request ''forged'') @ ''|'' @
        vr_razorpay_payment_id (sample_verify_request ''forged''))"
    and v: "verify_request_valid (sample_verify_request ''forged'')"
    by (simp_all add: payment_sample_defs verify_request_valid_def)
  have ok: "is_success (fst (verifyPayment (sample_config None) sample_date 7
       (sample_verify_request ''mac:key_secret:order_N1|pay_P1'') (sample_store pending pay_pending)))"
    by (simp add: payment_defs payment_sample_defs store_defs)
  from verifyPayment_signature_mismatch [of "sample_verify_request ''forged''" "sample_config None"
      sample_date 7 "sample_store pending pay_pending"] h v
  have "snd (verifyPayment (sample_config None) sample_date 7 (sample_verify_request ''forged'')
          (sample_store pending pay_pending)) = sample_store pending pay_pending"
    "fst (verifyPayment (sample_config None) sample_date 7 (sample_verify_request ''forged'')
          (sample_store pending pay_pending)) = Failure 400 ''Payment verification failed''"
    by blast+
  then have "verifyPayment (sample_config None) sample_date 7 (sample_verify_request ''forged'')
       (sample_store pending pay_pending) =
     (Failure 400 ''Payment verification failed'', sample_store pending pay_pending)"
    by (simp add: prod_eq_iff)
  with h v ok show ?thesis by blast
qed

text \<open>
  C10. The webhook checks the signature only when the webhook secret is set. Without the
  secret the signature header has no influence on the outcome, the signature failure is
  never returned, and a payment.failed event, signed or not, sets the payment status of the
  order with the event's provider order id to failed, with the event's failure reason. With
  the secret set, a signature that differs from the digest of the body is rejected with the
  store unchanged.
\<close>

theorem webhook_signature_only_with_secret:
  "(\<not> webhook_secret_set cfg \<longrightarrow>
      handlePaymentWebhook cfg date webhookSignature body d =
        handlePaymentWebhook cfg date None body d \<and>
      fst (handlePaymentWebhook cfg date webhookSignature body d) \<noteq>
        Failure 400 ''Webhook signature verification failed'' \<and>
      (\<forall>e x. wb_event body = ''payment.failed'' \<and> wb_entity body = Some e \<and>
          Order_findByPaymentOrderId (pe_order_id e) (db_orders d) = Some x \<longrightarrow>
          fst (handlePaymentWebhook cfg date webhookSignature body d) = Success 200 () \<and>
          (\<exists>y. Order_findById (o_id x)
                  (db_orders (snd (handlePaymentWebhook cfg date webhookSignature body d))) = Some y \<and>
               pi_status (o_paymentInfo y) = pay_failed \<and>
               pi_failureReason (o_paymentInfo y) = pe_error_description e))) \<and>
   (webhook_secret_set cfg \<longrightarrow>
      (\<forall>k. RAZORPAY_WEBHOOK_SECRET cfg = Some k \<and>
           webhookSignature \<noteq> Some (hmac_sha256_hex cfg k (JSON_stringify cfg body)) \<longrightarrow>
           handlePaymentWebhook cfg date webhookSignature body d =
             (Failure 400 ''Webhook signature verification failed'', d)))"
proof (rule conjI; rule impI)
  assume ns: "\<not> webhook_secret_set cfg"
  then have ok: "webhook_signature_ok cfg s body" for s
    by (simp add: webhook_signature_ok_def)
  have p1: "handlePaymentWebhook cfg date webhookSignature body d =
        handlePaymentWebhook cfg date None body d"
    by (simp add: handlePaymentWebhook_def ok)
  have p2: "fst (handlePaymentWebhook cfg date webhookSignature body d) \<noteq>
        Failure 400 ''Webhook signature verification failed''"
    by (auto simp: handlePaymentWebhook_def ok Let_def split: option.splits prod.splits)
  have p3: "fst (handlePaymentWebhook cfg date webhookSignature body d) = Success 200 () \<and>
          (\<exists>y. Order_findById (o_id x)
                  (db_orders (snd (handlePaymentWebhook cfg date webhookSignature body d))) = Some y \<and>
               pi_status (o_paymentInfo y) = pay_failed \<and>
               pi_failureReason (o_paymentInfo y) = pe_error_description e)"
    if a: "wb_event body = ''payment.failed'' \<and> wb_entity body = Some e \<and>
          Order_findByPaymentOrderId (pe_order_id e) (db_orders d) = Some x" for e x
  proof -
    define doc where "doc = x\<lparr>o_paymentInfo := (o_paymentInfo x)
         \<lparr>pi_status := pay_failed, pi_failureReason := pe_error_description e\<rparr>\<rparr>"
    define saved where "saved = order_pre_save date False (db_orders d) doc"
    from a have run: "handlePaymentWebhook cfg date webhookSignature body d =
        (Success 200 (), d\<lparr>db_orders :=
           update_first (\<lambda>y. o_id y = o_id x) (\<lambda>_. saved) (db_orders d)\<rparr>)"
      by (simp add: handlePaymentWebhook_def ok Let_def Order_save_eq doc_def saved_def)
    from a have "x \<in> set (db_orders d)"
      using find_Some_set [of "\<lambda>y. pi_orderId (o_paymentInfo y) = Some (pe_order_id e)"
          "db_orders d" x]
      by (simp add: Order_findByPaymentOrderId_def)
    then obtain z where z: "Order_findById (o_id x) (db_orders d) = Some z"
      using find_exists [of x "db_orders d" "\<lambda>y. o_id y = o_id x"]
      by (auto simp: Order_findById_def)
    have sid: "o_id saved = o_id x"
      by (simp add: saved_def pre_save_fields doc_def)
    have "Order_findById (o_id x)
        (update_first (\<lambda>y. o_id y = o_id x) (\<lambda>_. saved) (db_orders d)) = Some saved"
      by (rule Order_findById_saved [OF z sid])
    moreover have "pi_status (o_paymentInfo saved) = pay_failed"
      "pi_failureReason (o_paymentInfo saved) = pe_error_description e"
      by (simp_all add: saved_def pre_save_fields doc_def)
    ultimately show ?thesis by (simp add: run)
  qed
  from p1 p2 p3 show
     "handlePaymentWebhook cfg date webhookSignature body d =
        handlePaymentWebhook cfg date None body d \<and>
      fst (handlePaymentWebhook cfg date webhookSignature body d) \<noteq>
        Failure 400 ''Webhook signature verification failed'' \<and>
      (\<forall>e x. wb_event body = ''payment.failed'' \<and> wb_entity body = Some e \<and>
          Order_findByPaymentOrderId (pe_order_id e) (db_orders d) = Some x \<longrightarrow>
          fst (handlePaymentWebhook cfg date webhookSignature body d) = Success 200 () \<and>
          (\<exists>y. Order_findById (o_id x)
                  (db_orders (snd (handlePaymentWebhook cfg date webhookSignature body d))) = Some y \<and>
               pi_status (o_paymentInfo y) = pay_failed \<and>
               pi_failureReason (o_paymentInfo y) = pe_error_description e))"
    by blast
next
  assume s: "webhook_secret_set cfg"
  show "\<forall>k. RAZORPAY_WEBHOOK_SECRET cfg = Some k \<and>
           webhookSignature \<noteq> Some (hmac_sha256_hex cfg k (JSON_stringify cfg body)) \<longrightarrow>
           handlePaymentWebhook cfg date webhookSignature body d =
             (Failure 400 ''Webhook signature verification failed'', d)"
  proof (intro allI impI)
    fix k
    assume "RAZORPAY_WEBHOOK_SECRET cfg = Some k \<and>
           webhookSignature \<noteq> Some (hmac_sha256_hex cfg k (JSON_stringify cfg body))"
    with s have "\<not> webhook_signature_ok cfg webhookSignature body"
      by (auto simp: webhook_signature_ok_def)
    then show "handlePaymentWebhook cfg date webhookSignature body d =
             (Failure 400 ''Webhook signature verification failed'', d)"
      by (simp add: handlePaymentWebhook_def)
  qed
qed

theorem webhook_signature_only_with_secret_witness:
  "\<not> webhook_secret_set (sample_config None) \<and>
   Order_findByPaymentOrderId ''order_N1'' (db_orders (sample_store pending pay_pending)) =
     Some (sample_order pending pay_pending) \<and>
   fst (handlePaymentWebhook (sample_config None) sample_date (Some ''forged'') failed_event
     (sample_store pending pay_pending)) = Success 200 () \<and>
   map (\<lambda>x. pi_status (o_paymentInfo x))
     (db_orders (snd (handlePaymentWebhook (sample_config None) sample_date (Some ''forged'')
        failed_event (sample_store pending pay_pending)))) = [pay_failed] \<and>
   webhook_secret_set (sample_config (Some ''whsec'')) \<and>
   handlePaymentWebhook (sample_config (Some ''whsec'')) sample_date (Some ''forged'') failed_event
     (sample_store pending pay_pending) =
     (Failure 400 ''Webhook signature verification failed'', sample_store pending pay_pending)"
proof -
  let ?d = "sample_store pending pay_pending"
  let ?run = "handlePaymentWebhook (sample_config None) sample_date (Some ''forged'') failed_event ?d"
  have ns: "\<not> webhook_secret_set (sample_config None)"
    and ys: "webhook_secret_set (sample_config (Some ''whsec''))"
    and k: "RAZORPAY_WEBHOOK_SECRET (sample_config (Some ''whsec'')) = Some ''whsec''"
    and sig: "Some ''forged'' \<noteq> Some (hmac_sha256_hex (sample_config (Some ''whsec'')) ''whsec''
        (JSON_stringify (sample_config (Some ''whsec'')) failed_event))"
    by (simp_all add: webhook_secret_set_def sample_config_def)
  let ?e = "\<lparr>pe_id = ''pay_P2'', pe_order_id = ''order_N1'',
             pe_error_description = Some ''Payment declined''\<rparr>"
  have ev: "wb_event failed_event = ''payment.failed'' \<and> wb_entity failed_event = Some ?e \<and>
      Order_findByPaymentOrderId (pe_order_id ?e) (db_orders ?d) = Some (sample_order pending pay_pending)"
    by (simp add: failed_event_def Order_findByPaymentOrderId_def store_defs)
  then have f: "Order_findByPaymentOrderId ''order_N1'' (db_orders ?d) =
      Some (sample_order pending pay_pending)"
    by simp
  from webhook_signature_only_with_secret [of "sample_config None" sample_date "Some ''forged''"
      failed_event ?d] ns
  have allp: "\<forall>e x. wb_event failed_event = ''payment.failed'' \<and> wb_entity failed_event = Some e \<and>
          Order_findByPaymentOrderId (pe_order_id e) (db_orders ?d) = Some x \<longrightarrow>
          fst ?run = Success 200 () \<and>
          (\<exists>y. Order_findById (o_id x) (db_orders (snd ?run)) = Some y \<and>
               pi_status (o_paymentInfo y) = pay_failed \<and>
               pi_failureReason (o_paymentInfo y) = pe_error_description e)"
    by blast
  from allp [rule_format, OF ev] have r1: "fst ?run = Success 200 ()"
    by blast
  from allp [rule_format, OF ev] obtain y where
    y: "Order_findById (o_id (sample_order pending pay_pending)) (db_orders (snd ?run)) = Some y"
      "pi_status (o_paymentInfo y) = pay_failed"
    by blast
  have len: "map o_id (db_orders (snd ?run)) = [100]"
    by (simp add: payment_defs payment_sample_defs store_defs)
  from y len have r2: "map (\<lambda>x. pi_status (o_paymentInfo x)) (db_orders (snd ?run)) = [pay_failed]"
    by (cases "db_orders (snd ?run)") (auto simp: Order_findById_def sample_order_def split: if_splits)
  from webhook_signature_only_with_secret [of "sample_config (Some ''whsec'')" sample_date
      "Some ''forged''" failed_event ?d] ys k sig
  have r3: "handlePaymentWebhook (sample_config (Some ''whsec'')) sample_date (Some ''forged'')
     failed_event ?d = (Failure 400 ''Webhook signature verification failed'', ?d)"
    by blast
  from ns f r1 r2 ys r3 show ?thesis by blast
qed

section \<open>Timeline\<close>

text \<open>
  C8. A save of a loaded order appends exactly one entry (the new status, the message
  "Order " followed by the status, the time of the save) to the timeline when the status
  differs from the loaded one, and appends nothing otherwise; the first save of a new order
  appends the entry of its initial status. Every route saves at most once: for every stored
  order, the timeline after a request is the timeline before it, followed by one entry if
  and only if the order's status changed. Earlier entries are never modified, removed or
  reordered. Order ids are unique in the store.
\<close>

theorem timeline_append_only:
  "o_timeline (fst (Order_save date loaded doc os)) =
     o_timeline doc @
       (if o_status doc \<noteq> o_status loaded
        then [\<lparr>tl_status = o_status doc, tl_message = ''Order '' @ status_name (o_status doc),
               tl_timestamp = getTime date\<rparr>]
        else []) \<and>
   (\<forall>saved os'. Order_insert date doc os = Some (saved, os') \<longrightarrow>
      o_timeline saved =
        o_timeline doc @
          [\<lparr>tl_status = o_status doc, tl_message = ''Order '' @ status_name (o_status doc),
            tl_timestamp = getTime date\<rparr>]) \<and>
   (distinct (map o_id (db_orders d)) \<longrightarrow>
      (\<forall>i x. Order_findById i (db_orders d) = Some x \<longrightarrow>
         (\<exists>y. Order_findById i (db_orders (handle cfg date r d)) = Some y \<and>
              o_timeline y =
                o_timeline x @
                  (if o_status y \<noteq> o_status x
                   then [\<lparr>tl_status = o_status y,
                          tl_message = ''Order '' @ status_name (o_status y),
                          tl_timestamp = getTime date\<rparr>]
                   else []))))"
proof (intro conjI)
  show "o_timeline (fst (Order_save date loaded doc os)) =
     o_timeline doc @
       (if o_status doc \<noteq> o_status loaded
        then [\<lparr>tl_status = o_status doc, tl_message = ''Order '' @ status_name (o_status doc),
               tl_timestamp = getTime date\<rparr>]
        else [])"
    by (auto simp: Order_save_eq pre_save_timeline timeline_entry_for_def)
  show "\<forall>saved os'. Order_insert date doc os = Some (saved, os') \<longrightarrow>
      o_timeline saved =
        o_timeline doc @
          [\<lparr>tl_status = o_status doc, tl_message = ''Order '' @ status_name (o_status doc),
            tl_timestamp = getTime date\<rparr>]"
    using Order_insert_Some [of date doc os]
    by (auto simp: pre_save_timeline timeline_entry_for_def)
  show "distinct (map o_id (db_orders d)) \<longrightarrow>
      (\<forall>i x. Order_findById i (db_orders d) = Some x \<longrightarrow>
         (\<exists>y. Order_findById i (db_orders (handle cfg date r d)) = Some y \<and>
              o_timeline y =
                o_timeline x @
                  (if o_status y \<noteq> o_status x
                   then [\<lparr>tl_status = o_status y,
                          tl_message = ''Order '' @ status_name (o_status y),
                          tl_timestamp = getTime date\<rparr>]
                   else [])))"
  proof (intro impI allI)
    fix i x
    assume "distinct (map o_id (db_orders d))" and "Order_findById i (db_orders d) = Some x"
    from handle_frame [OF this, of cfg date r] show
      "\<exists>y. Order_findById i (db_orders (handle cfg date r d)) = Some y \<and>
              o_timeline y =
                o_timeline x @
                  (if o_status y \<noteq> o_status x
                   then [\<lparr>tl_status = o_status y,
                          tl_message = ''Order '' @ status_name (o_status y),
                          tl_timestamp = getTime date\<rparr>]
                   else [])"
      unfolding timeline_entry_for_def by blast
  qed
qed

theorem timeline_append_only_witness:
  "distinct (map o_id (db_orders (sample_store confirmed pay_pending))) \<and>
   Order_findById 100 (db_orders (sample_store confirmed pay_pending)) =
     Some (sample_order confirmed pay_pending) \<and>
   map o_timeline (db_orders (handle (sample_config None) sample_date
      (UpdateOrderStatus 100 (sample_status_update shipped)) (sample_store confirmed pay_pending))) =
     [ [\<lparr>tl_status = pending, tl_message = ''Order pending'', tl_timestamp = 1762150000000\<rparr>,
       \<lparr>tl_status = shipped, tl_message = ''Order shipped'', tl_timestamp = 1762153200000\<rparr>] ] \<and>
   map o_timeline (db_orders (handle (sample_config None) sample_date
      (UpdateOrderStatus 100 (sample_status_update confirmed)) (sample_store confirmed pay_pending))) =
     [ [\<lparr>tl_status = pending, tl_message = ''Order pending'', tl_timestamp = 1762150000000\<rparr>] ]"
proof -
  let ?d = "sample_store confirmed pay_pending"
  let ?h = "\<lambda>st. handle (sample_config None) sample_date
      (UpdateOrderStatus 100 (sample_status_update st)) ?d"
  have dist: "distinct (map o_id (db_orders ?d))"
    and f: "Order_findById 100 (db_orders ?d) = Some (sample_order confirmed pay_pending)"
    by (simp_all add: store_defs Order_findById_def)
  have shape: "map o_id (db_orders (?h st)) = [100] \<and> map o_status (db_orders (?h st)) = [st]" for st
    by (simp add: route_defs store_defs sample_status_update_def)
  have step: "\<exists>y. Order_findById 100 (db_orders (?h st)) = Some y \<and>
      o_timeline y = o_timeline (sample_order confirmed pay_pending) @
         (if o_status y \<noteq> o_status (sample_order confirmed pay_pending)
          then [\<lparr>tl_status = o_status y, tl_message = ''Order '' @ status_name (o_status y),
                 tl_timestamp = getTime sample_date\<rparr>]
          else [])" for st
    using timeline_append_only [of sample_date "sample_order confirmed pay_pending"
        "sample_order confirmed pay_pending" "[]" ?d "sample_config None"
        "UpdateOrderStatus 100 (sample_status_update st)"] dist f
    by blast
  have tl: "map o_timeline (db_orders (?h st)) =
      [o_timeline (sample_order confirmed pay_pending) @
         (if st \<noteq> confirmed
          then [\<lparr>tl_status = st, tl_message = ''Order '' @ status_name st,
                 tl_timestamp = getTime sample_date\<rparr>]
          else [])]" for st
  proof -
    from step [of st] obtain y where y: "Order_findById 100 (db_orders (?h st)) = Some y"
      "o_timeline y = o_timeline (sample_order confirmed pay_pending) @
         (if o_status y \<noteq> o_status (sample_order confirmed pay_pending)
          then [\<lparr>tl_status = o_status y, tl_message = ''Order '' @ status_name (o_status y),
                 tl_timestamp = getTime sample_date\<rparr>]
          else [])"
      by blast
    from shape [of st] y(1) have "db_orders (?h st) = [y]" "o_status y = st"
      by (cases "db_orders (?h st)"; auto simp: Order_findById_def split: if_splits)+
    with y(2) show ?thesis by (simp add: sample_order_def)
  qed
  from tl [of shipped] tl [of confirmed] dist f show ?thesis
    by (simp add: sample_order_def sample_date_def)
qed

section \<open>Payment status\<close>

text \<open>
  C4 (as the code has it). A successful verifyPayment leaves the order with payment status
  completed. The status is not protected afterwards: an accepted payment.failed webhook sets
  the status of the order with the event's provider order id to failed whatever it was,
  completed included, and a successful cod/process leaves the order with payment status
  pending whatever it was. A successful createOrder stores the new order with the payment
  information of the request, its status included, whichever of the four it is. A request
  changes the payment status of an order already stored only to the status its route
  writes: completed for verifyPayment, failed for the payment.failed webhook, pending for
  cod/process; no other route changes it.
\<close>

theorem payment_status_writers:
  "(distinct (map o_id (db_orders d)) \<longrightarrow>
      (\<forall>i x. Order_findById i (db_orders d) = Some x \<longrightarrow>
         (\<exists>y. Order_findById i (db_orders (handle cfg date r d)) = Some y \<and>
              (pi_status (o_paymentInfo y) = pi_status (o_paymentInfo x) \<or>
               payment_write r = Some (pi_status (o_paymentInfo y)))))) \<and>
   (\<forall>c data d'. verifyPayment cfg date u rq d = (Success c data, d') \<longrightarrow>
      (\<exists>y. Order_findById (vr_orderId rq) (db_orders d') = Some y \<and>
           pi_status (o_paymentInfo y) = pay_completed)) \<and>
   (\<forall>e x. webhook_signature_ok cfg s body \<and> wb_event body = ''payment.failed'' \<and>
        wb_entity body = Some e \<and>
        Order_findByPaymentOrderId (pe_order_id e) (db_orders d) = Some x \<longrightarrow>
        (\<exists>y. Order_findById (o_id x)
                (db_orders (snd (handlePaymentWebhook cfg date s body d))) = Some y \<and>
             pi_status (o_paymentInfo y) = pay_failed)) \<and>
   (\<forall>c data d'. processCod date u oid d = (Success c data, d') \<longrightarrow>
      (\<exists>y. Order_findById oid (db_orders d') = Some y \<and>
           pi_status (o_paymentInfo y) = pay_pending)) \<and>
   (\<forall>c ord d'. createOrder date random new_id req_user crq d = (Success c ord, d') \<longrightarrow>
      ord \<in> set (db_orders d') \<and> o_paymentInfo ord = rq_paymentInfo crq)"
proof (intro conjI)
  show "distinct (map o_id (db_orders d)) \<longrightarrow>
      (\<forall>i x. Order_findById i (db_orders d) = Some x \<longrightarrow>
         (\<exists>y. Order_findById i (db_orders (handle cfg date r d)) = Some y \<and>
              (pi_status (o_paymentInfo y) = pi_status (o_paymentInfo x) \<or>
               payment_write r = Some (pi_status (o_paymentInfo y)))))"
    using handle_frame [of d _ _ cfg date r] by blast
  show "\<forall>c data d'. verifyPayment cfg date u rq d = (Success c data, d') \<longrightarrow>
      (\<exists>y. Order_findById (vr_orderId rq) (db_orders d') = Some y \<and>
           pi_status (o_paymentInfo y) = pay_completed)"
    using verifyPayment_saved by blast
  show "\<forall>e x. webhook_signature_ok cfg s body \<and> wb_event body = ''payment.failed'' \<and>
        wb_entity body = Some e \<and>
        Order_findByPaymentOrderId (pe_order_id e) (db_orders d) = Some x \<longrightarrow>
        (\<exists>y. Order_findById (o_id x)
                (db_orders (snd (handlePaymentWebhook cfg date s body d))) = Some y \<and>
             pi_status (o_paymentInfo y) = pay_failed)"
    using webhook_failed_saved by blast
  show "\<forall>c data d'. processCod date u oid d = (Success c data, d') \<longrightarrow>
      (\<exists>y. Order_findById oid (db_orders d') = Some y \<and>
           pi_status (o_paymentInfo y) = pay_pending)"
    using processCod_saved by blast
  show "\<forall>c ord d'. createOrder date random new_id req_user crq d = (Success c ord, d') \<longrightarrow>
      ord \<in> set (db_orders d') \<and> o_paymentInfo ord = rq_paymentInfo crq"
    using createOrder_paymentInfo by blast
qed

text \<open>In the sample store: cancelling keeps completed, a verified payment gives completed,
  a signed payment.failed event turns completed into failed, cod/process turns completed
  into pending, and an order created from a request that says refunded is stored as
  refunded.\<close>

theorem payment_status_writers_witness:
  "distinct (map o_id (db_orders (sample_store confirmed pay_completed))) \<and>
   Order_findById 100 (db_orders (sample_store confirmed pay_completed)) =
     Some (sample_order confirmed pay_completed) \<and>
   map (\<lambda>x. pi_status (o_paymentInfo x))
     (db_orders (handle (sample_config (Some ''whsec'')) sample_date (CancelOrder 7 100 None)
        (sample_store confirmed pay_completed))) = [pay_completed] \<and>
   is_success (fst (verifyPayment (sample_config (Some ''whsec'')) sample_date 7
     (sample_verify_request ''mac:key_secret:order_N1|pay_P1'') (sample_store pending pay_pending))) \<and>
   map (\<lambda>x. pi_status (o_paymentInfo x))
     (db_orders (snd (verifyPayment (sample_config (Some ''whsec'')) sample_date 7
        (sample_verify_request ''mac:key_secret:order_N1|pay_P1'')
        (sample_store pending pay_pending)))) = [pay_completed] \<and>
   webhook_signature_ok (sample_config (Some ''whsec'')) (Some ''mac:whsec:payment.failed'')
     failed_event \<and>
   Order_findByPaymentOrderId ''order_N1'' (db_orders (sample_store confirmed pay_completed)) =
     Some (sample_order confirmed pay_completed) \<and>
   map (\<lambda>x. pi_status (o_paymentInfo x))
     (db_orders (snd (handlePaymentWebhook (sample_config (Some ''whsec'')) sample_date
        (Some ''mac:whsec:payment.failed'') failed_event
        (sample_store confirmed pay_completed)))) = [pay_failed] \<and>
   is_success (fst (processCod sample_date 7 100 (cod_store pay_completed))) \<and>
   map (\<lambda>x. pi_status (o_paymentInfo x))
     (db_orders (snd (processCod sample_date 7 100 (cod_store pay_completed)))) = [pay_pending] \<and>
   is_success (fst (createOrder sample_date sample_random 100 (Some 7) refunded_request
     sample_db)) \<and>
   map (\<lambda>x. pi_status (o_paymentInfo x))
     (db_orders (snd (createOrder sample_date sample_random 100 (Some 7) refunded_request
        sample_db))) = [pay_refunded]"
proof -
  let ?cfg = "sample_config (Some ''whsec'')"
  let ?dc = "sample_store confirmed pay_completed"
  let ?dp = "sample_store pending pay_pending"
  let ?rq = "sample_verify_request ''mac:key_secret:order_N1|pay_P1''"
  let ?sig = "Some ''mac:whsec:payment.failed''"
  let ?e = "\<lparr>pe_id = ''pay_P2'', pe_order_id = ''order_N1'',
             pe_error_description = Some ''Payment declined''\<rparr>"
  let ?st = "\<lambda>os. map (\<lambda>x. pi_status (o_paymentInfo x)) os"
  have single: "?st os = [pi_status (o_paymentInfo y)]"
    if "map o_id os = [100]" "Order_findById 100 os = Some y" for os y
    using that by (cases os) (auto simp: Order_findById_def split: if_splits)
  have dist: "distinct (map o_id (db_orders ?dc))"
    and f: "Order_findById 100 (db_orders ?dc) = Some (sample_order confirmed pay_completed)"
    by (simp_all add: store_defs Order_findById_def)
  note w1 = payment_status_writers [where d = ?dc and cfg = ?cfg and date = sample_date
      and r = "CancelOrder 7 100 None" and u = 7 and rq = ?rq and s = ?sig and body = failed_event
      and oid = 100 and random = sample_random and new_id = 100 and req_user = "Some 7"
      and crq = refunded_request]
  from w1 dist f obtain y1 where y1:
    "Order_findById 100 (db_orders (handle ?cfg sample_date (CancelOrder 7 100 None) ?dc)) = Some y1"
    "pi_status (o_paymentInfo y1) = pi_status (o_paymentInfo (sample_order confirmed pay_completed))
     \<or> payment_write (CancelOrder 7 100 None) = Some (pi_status (o_paymentInfo y1))"
    by blast
  have ids1: "map o_id (db_orders (handle ?cfg sample_date (CancelOrder 7 100 None) ?dc)) = [100]"
    by (simp add: route_defs store_defs)
  from y1(2) have "pi_status (o_paymentInfo y1) = pay_completed"
    by (simp add: sample_order_def sample_payment_def)
  with single [OF ids1 y1(1)] have r1:
    "?st (db_orders (handle ?cfg sample_date (CancelOrder 7 100 None) ?dc)) = [pay_completed]"
    by simp
  obtain c data d' where run: "verifyPayment ?cfg sample_date 7 ?rq ?dp = (Success c data, d')"
    and ids2: "map o_id (db_orders d') = [100]"
    by (simp add: route_defs payment_sample_defs store_defs)
  note w2 = payment_status_writers [where d = ?dp and cfg = ?cfg and date = sample_date
      and r = "CancelOrder 7 100 None" and u = 7 and rq = ?rq and s = ?sig and body = failed_event
      and oid = 100 and random = sample_random and new_id = 100 and req_user = "Some 7"
      and crq = refunded_request]
  from w2 run obtain y2 where y2:
    "Order_findById (vr_orderId ?rq) (db_orders d') = Some y2"
    "pi_status (o_paymentInfo y2) = pay_completed"
    by blast
  from y2(1) have "Order_findById 100 (db_orders d') = Some y2"
    by (simp add: sample_verify_request_def)
  from single [OF ids2 this] y2(2) run have r2:
    "is_success (fst (verifyPayment ?cfg sample_date 7 ?rq ?dp))"
    "?st (db_orders (snd (verifyPayment ?cfg sample_date 7 ?rq ?dp))) = [pay_completed]"
    by simp_all
  have ev: "webhook_signature_ok ?cfg ?sig failed_event \<and>
      wb_event failed_event = ''payment.failed'' \<and> wb_entity failed_event = Some ?e \<and>
      Order_findByPaymentOrderId (pe_order_id ?e) (db_orders ?dc) =
        Some (sample_order confirmed pay_completed)"
    by (simp add: failed_event_def Order_findByPaymentOrderId_def store_defs
        webhook_signature_ok_def webhook_secret_set_def sample_config_def)
  from w1 have allp: "\<forall>e x. webhook_signature_ok ?cfg ?sig failed_event \<and>
        wb_event failed_event = ''payment.failed'' \<and> wb_entity failed_event = Some e \<and>
        Order_findByPaymentOrderId (pe_order_id e) (db_orders ?dc) = Some x \<longrightarrow>
        (\<exists>y. Order_findById (o_id x)
                (db_orders (snd (handlePaymentWebhook ?cfg sample_date ?sig failed_event ?dc))) = Some y \<and>
             pi_status (o_paymentInfo y) = pay_failed)"
    by blast
  from allp [rule_format, OF ev] obtain y3 where y3:
    "Order_findById (o_id (sample_order confirmed pay_completed))
       (db_orders (snd (handlePaymentWebhook ?cfg sample_date ?sig failed_event ?dc))) = Some y3"
    "pi_status (o_paymentInfo y3) = pay_failed"
    by blast
  from y3(1) have y3': "Order_findById 100
       (db_orders (snd (handlePaymentWebhook ?cfg sample_date ?sig failed_event ?dc))) = Some y3"
    by (simp add: sample_order_def)
  have ids3: "map o_id (db_orders (snd (handlePaymentWebhook ?cfg sample_date ?sig failed_event ?dc)))
      = [100]"
    by (simp add: route_defs payment_sample_defs store_defs)
  from single [OF ids3 y3'] y3(2) have r3:
    "?st (db_orders (snd (handlePaymentWebhook ?cfg sample_date ?sig failed_event ?dc))) = [pay_failed]"
    by simp
  from ev have ok: "webhook_signature_ok ?cfg ?sig failed_event"
    and fp: "Order_findByPaymentOrderId ''order_N1'' (db_orders ?dc) =
        Some (sample_order confirmed pay_completed)"
    by simp_all
  obtain c4 data4 d4 where run4:
    "processCod sample_date 7 100 (cod_store pay_completed) = (Success c4 data4, d4)"
    and ids4: "map o_id (db_orders d4) = [100]"
    by (simp add: route_defs payment_sample_defs store_defs)
  note w4 = payment_status_writers [where d = "cod_store pay_completed" and cfg = ?cfg and date = sample_date
      and r = "CancelOrder 7 100 None" and u = 7 and rq = ?rq and s = ?sig and body = failed_event
      and oid = 100 and random = sample_random and new_id = 100 and req_user = "Some 7"
      and crq = refunded_request]
  from w4 run4 obtain y4 where y4:
    "Order_findById 100 (db_orders d4) = Some y4" "pi_status (o_paymentInfo y4) = pay_pending"
    by blast
  from single [OF ids4 y4(1)] y4(2) run4 have r4:
    "is_success (fst (processCod sample_date 7 100 (cod_store pay_completed)))"
    "?st (db_orders (snd (processCod sample_date 7 100 (cod_store pay_completed)))) = [pay_pending]"
    by simp_all
  obtain c5 ord5 d5 where run5:
    "createOrder sample_date sample_random 100 (Some 7) refunded_request sample_db
       = (Success c5 ord5, d5)"
    and len5: "length (db_orders d5) = 1"
    by (simp add: create_order_defs sample_defs refunded_request_def)
  note w5 = payment_status_writers [where d = sample_db and cfg = ?cfg and date = sample_date
      and r = "CancelOrder 7 100 None" and u = 7 and rq = ?rq and s = ?sig and body = failed_event
      and oid = 100 and random = sample_random and new_id = 100 and req_user = "Some 7"
      and crq = refunded_request]
  from w5 run5 have y5: "ord5 \<in> set (db_orders d5)"
    "o_paymentInfo ord5 = rq_paymentInfo refunded_request"
    by blast+
  from y5(1) len5 have "db_orders d5 = [ord5]"
    by (cases "db_orders d5") simp_all
  with y5(2) run5 have r5:
    "is_success (fst (createOrder sample_date sample_random 100 (Some 7) refunded_request
       sample_db))"
    "?st (db_orders (snd (createOrder sample_date sample_random 100 (Some 7) refunded_request
       sample_db))) = [pay_refunded]"
    by (simp_all add: refunded_request_def)
  from dist f r1 r2 ok fp r3 r4 r5 show ?thesis by blast
qed

text \<open>The claim as worded fails: after a verified payment (status completed) a correctly
  signed payment.failed event for the same provider order sets the status to failed.\<close>

theorem webhook_downgrades_completed_counterexample:
  "map (\<lambda>x. pi_status (o_paymentInfo x))
     (db_orders (handle (sample_config (Some ''whsec'')) sample_date
        (VerifyPayment 7 (sample_verify_request ''mac:key_secret:order_N1|pay_P1''))
        (sample_store pending pay_pending))) = [pay_completed] \<and>
   map (\<lambda>x. pi_status (o_paymentInfo x))
     (db_orders (handle (sample_config (Some ''whsec'')) sample_date
        (PaymentWebhook (Some ''mac:whsec:payment.failed'') failed_event)
        (handle (sample_config (Some ''whsec'')) sample_date
           (VerifyPayment 7 (sample_verify_request ''mac:key_secret:order_N1|pay_P1''))
           (sample_store pending pay_pending)))) = [pay_failed]"
  by (simp add: route_defs payment_sample_defs store_defs)

section \<open>Order numbers\<close>





end
